theory Spec2Isabelle
  imports Main "HOL-Library.Code_Target_Nat"
begin

section \<open>Strings\<close>

text \<open>
  A JavaScript string is the list of its UTF-16 code units, each a natural number below
  \<open>0x10000\<close>. \<open>js\<close> gives the string of an ASCII literal.
\<close>

type_synonym jsstring = "nat list"

definition js :: "string \<Rightarrow> jsstring" where
  "js s = map of_char s"

text \<open>
  The white space of \<open>String.prototype.trim\<close> and of the regular expression class
  \<open>\s\<close> (ECMAScript \<open>WhiteSpace\<close> and \<open>LineTerminator\<close>): TAB, LF, VT, FF, CR, SPACE,
  NO-BREAK SPACE, OGHAM SPACE MARK, \<open>U+2000\<close>..\<open>U+200A\<close>, LINE and PARAGRAPH
  SEPARATOR, \<open>U+202F\<close>, \<open>U+205F\<close>, IDEOGRAPHIC SPACE and the byte order mark.
\<close>

definition whiteSpace :: "nat list" where
  "whiteSpace =
     [0x0009, 0x000A, 0x000B, 0x000C, 0x000D, 0x0020, 0x00A0, 0x1680,
      0x2000, 0x2001, 0x2002, 0x2003, 0x2004, 0x2005, 0x2006, 0x2007, 0x2008, 0x2009, 0x200A,
      0x2028, 0x2029, 0x202F, 0x205F, 0x3000, 0xFEFF]"

definition isSpace :: "nat \<Rightarrow> bool" where
  "isSpace u = (u \<in> set whiteSpace)"

text \<open>
  \<open>String.prototype.toUpperCase\<close> maps every code point by the full upper-case mapping
  of the Unicode character database (simple mappings of \<open>UnicodeData.txt\<close>, unconditional
  mappings of \<open>SpecialCasing.txt\<close>), here of Unicode 14.0. A \<open>case_range\<close>
  \<open>(lo, hi, step, target)\<close> maps the code points \<open>lo\<close>, \<open>lo + step\<close>, .. up to \<open>hi\<close> to
  \<open>target\<close>, \<open>target + step\<close>, ..; a \<open>case_block\<close> holds the code points of one stretch of
  the table that map to several code points, and the ranges of that stretch.
\<close>

type_synonym case_range = "nat \<times> nat \<times> nat \<times> nat"

type_synonym case_block = "(nat \<times> nat list) list \<times> case_range list"

fun lookupRange :: "case_range list \<Rightarrow> nat \<Rightarrow> nat option" where
  "lookupRange [] cp = None"
| "lookupRange ((lo, hi, step, target) # rs) cp =
     (if lo \<le> cp \<and> cp \<le> hi \<and> (cp - lo) mod step = 0 then Some (target + (cp - lo))
      else lookupRange rs cp)"

fun upperIn :: "case_block \<Rightarrow> nat \<Rightarrow> jsstring" where
  "upperIn (special, ranges) u =
     (case map_of special u of
        Some vs \<Rightarrow> vs
      | None \<Rightarrow> (case lookupRange ranges u of Some t \<Rightarrow> [t] | None \<Rightarrow> [u]))"

definition upperBlock0 :: case_block where
  "upperBlock0 =
     ([(0x00DF, [0x0053, 0x0053])],
      [(0x0061, 0x007A, 1, 0x0041), (0x00B5, 0x00B5, 1, 0x039C), (0x00E0, 0x00F6, 1, 0x00C0),
       (0x00F8, 0x00FE, 1, 0x00D8), (0x00FF, 0x00FF, 1, 0x0178), (0x0101, 0x012F, 2, 0x0100),
       (0x0131, 0x0131, 1, 0x0049), (0x0133, 0x0137, 2, 0x0132), (0x013A, 0x0148, 2, 0x0139)])"

definition upperBlock1 :: case_block where
  "upperBlock1 =
     ([(0x0149, [0x02BC, 0x004E])],
      [(0x014B, 0x0177, 2, 0x014A), (0x017A, 0x017E, 2, 0x0179), (0x017F, 0x017F, 1, 0x0053),
       (0x0180, 0x0180, 1, 0x0243), (0x0183, 0x0185, 2, 0x0182), (0x0188, 0x0188, 1, 0x0187),
       (0x018C, 0x018C, 1, 0x018B), (0x0192, 0x0192, 1, 0x0191), (0x0195, 0x0195, 1, 0x01F6)])"

definition upperBlock2 :: case_block where
  "upperBlock2 =
     ([],
      [(0x0199, 0x0199, 1, 0x0198), (0x019A, 0x019A, 1, 0x023D), (0x019E, 0x019E, 1, 0x0220),
       (0x01A1, 0x01A5, 2, 0x01A0), (0x01A8, 0x01A8, 1, 0x01A7), (0x01AD, 0x01AD, 1, 0x01AC),
       (0x01B0, 0x01B0, 1, 0x01AF), (0x01B4, 0x01B6, 2, 0x01B3), (0x01B9, 0x01B9, 1, 0x01B8),
       (0x01BD, 0x01BD, 1, 0x01BC)])"

definition upperBlock3 :: case_block where
  "upperBlock3 =
     ([],
      [(0x01BF, 0x01BF, 1, 0x01F7), (0x01C5, 0x01C5, 1, 0x01C4), (0x01C6, 0x01C6, 1, 0x01C4),
       (0x01C8, 0x01C8, 1, 0x01C7), (0x01C9, 0x01C9, 1, 0x01C7), (0x01CB, 0x01CB, 1, 0x01CA),
       (0x01CC, 0x01CC, 1, 0x01CA), (0x01CE, 0x01DC, 2, 0x01CD), (0x01DD, 0x01DD, 1, 0x018E),
       (0x01DF, 0x01EF, 2, 0x01DE)])"

definition upperBlock4 :: case_block where
  "upperBlock4 =
     ([(0x01F0, [0x004A, 0x030C])],
      [(0x01F2, 0x01F2, 1, 0x01F1), (0x01F3, 0x01F3, 1, 0x01F1), (0x01F5, 0x01F5, 1, 0x01F4),
       (0x01F9, 0x021F, 2, 0x01F8), (0x0223, 0x0233, 2, 0x0222), (0x023C, 0x023C, 1, 0x023B),
       (0x023F, 0x0240, 1, 0x2C7E), (0x0242, 0x0242, 1, 0x0241), (0x0247, 0x024F, 2, 0x0246)])"

definition upperBlock5 :: case_block where
  "upperBlock5 =
     ([],
      [(0x0250, 0x0250, 1, 0x2C6F), (0x0251, 0x0251, 1, 0x2C6D), (0x0252, 0x0252, 1, 0x2C70),
       (0x0253, 0x0253, 1, 0x0181), (0x0254, 0x0254, 1, 0x0186), (0x0256, 0x0257, 1, 0x0189),
       (0x0259, 0x0259, 1, 0x018F), (0x025B, 0x025B, 1, 0x0190), (0x025C, 0x025C, 1, 0xA7AB),
       (0x0260, 0x0260, 1, 0x0193)])"

definition upperBlock6 :: case_block where
  "upperBlock6 =
     ([],
      [(0x0261, 0x0261, 1, 0xA7AC), (0x0263, 0x0263, 1, 0x0194), (0x0265, 0x0265, 1, 0xA78D),
       (0x0266, 0x0266, 1, 0xA7AA), (0x0268, 0x0268, 1, 0x0197), (0x0269, 0x0269, 1, 0x0196),
       (0x026A, 0x026A, 1, 0xA7AE), (0x026B, 0x026B, 1, 0x2C62), (0x026C, 0x026C, 1, 0xA7AD),
       (0x026F, 0x026F, 1, 0x019C)])"

definition upperBlock7 :: case_block where
  "upperBlock7 =
     ([],
      [(0x0271, 0x0271, 1, 0x2C6E), (0x0272, 0x0272, 1, 0x019D), (0x0275, 0x0275, 1, 0x019F),
       (0x027D, 0x027D, 1, 0x2C64), (0x0280, 0x0280, 1, 0x01A6), (0x0282, 0x0282, 1, 0xA7C5),
       (0x0283, 0x0283, 1, 0x01A9), (0x0287, 0x0287, 1, 0xA7B1), (0x0288, 0x0288, 1, 0x01AE),
       (0x0289, 0x0289, 1, 0x0244)])"

definition upperBlock8 :: case_block where
  "upperBlock8 =
     ([(0x0390, [0x0399, 0x0308, 0x0301])],
      [(0x028A, 0x028B, 1, 0x01B1), (0x028C, 0x028C, 1, 0x0245), (0x0292, 0x0292, 1, 0x01B7),
       (0x029D, 0x029D, 1, 0xA7B2), (0x029E, 0x029E, 1, 0xA7B0), (0x0345, 0x0345, 1, 0x0399),
       (0x0371, 0x0373, 2, 0x0370), (0x0377, 0x0377, 1, 0x0376), (0x037B, 0x037D, 1, 0x03FD)])"

definition upperBlock9 :: case_block where
  "upperBlock9 =
     ([(0x03B0, [0x03A5, 0x0308, 0x0301])],
      [(0x03AC, 0x03AC, 1, 0x0386), (0x03AD, 0x03AF, 1, 0x0388), (0x03B1, 0x03C1, 1, 0x0391),
       (0x03C2, 0x03C2, 1, 0x03A3), (0x03C3, 0x03CB, 1, 0x03A3), (0x03CC, 0x03CC, 1, 0x038C),
       (0x03CD, 0x03CE, 1, 0x038E), (0x03D0, 0x03D0, 1, 0x0392), (0x03D1, 0x03D1, 1, 0x0398)])"

definition upperBlock10 :: case_block where
  "upperBlock10 =
     ([],
      [(0x03D5, 0x03D5, 1, 0x03A6), (0x03D6, 0x03D6, 1, 0x03A0), (0x03D7, 0x03D7, 1, 0x03CF),
       (0x03D9, 0x03EF, 2, 0x03D8), (0x03F0, 0x03F0, 1, 0x039A), (0x03F1, 0x03F1, 1, 0x03A1),
       (0x03F2, 0x03F2, 1, 0x03F9), (0x03F3, 0x03F3, 1, 0x037F), (0x03F5, 0x03F5, 1, 0x0395),
       (0x03F8, 0x03F8, 1, 0x03F7)])"

definition upperBlock11 :: case_block where
  "upperBlock11 =
     ([(0x0587, [0x0535, 0x0552])],
      [(0x03FB, 0x03FB, 1, 0x03FA), (0x0430, 0x044F, 1, 0x0410), (0x0450, 0x045F, 1, 0x0400),
       (0x0461, 0x0481, 2, 0x0460), (0x048B, 0x04BF, 2, 0x048A), (0x04C2, 0x04CE, 2, 0x04C1),
       (0x04CF, 0x04CF, 1, 0x04C0), (0x04D1, 0x052F, 2, 0x04D0), (0x0561, 0x0586, 1, 0x0531)])"

definition upperBlock12 :: case_block where
  "upperBlock12 =
     ([],
      [(0x10D0, 0x10FA, 1, 0x1C90), (0x10FD, 0x10FF, 1, 0x1CBD), (0x13F8, 0x13FD, 1, 0x13F0),
       (0x1C80, 0x1C80, 1, 0x0412), (0x1C81, 0x1C81, 1, 0x0414), (0x1C82, 0x1C82, 1, 0x041E),
       (0x1C83, 0x1C84, 1, 0x0421), (0x1C85, 0x1C85, 1, 0x0422), (0x1C86, 0x1C86, 1, 0x042A),
       (0x1C87, 0x1C87, 1, 0x0462)])"

definition upperBlock13 :: case_block where
  "upperBlock13 =
     ([(0x1E96, [0x0048, 0x0331]), (0x1E97, [0x0054, 0x0308]), (0x1E98, [0x0057, 0x030A]),
     (0x1E99, [0x0059, 0x030A]), (0x1E9A, [0x0041, 0x02BE])],
      [(0x1C88, 0x1C88, 1, 0xA64A), (0x1D79, 0x1D79, 1, 0xA77D), (0x1D7D, 0x1D7D, 1, 0x2C63),
       (0x1D8E, 0x1D8E, 1, 0xA7C6), (0x1E01, 0x1E95, 2, 0x1E00)])"

definition upperBlock14 :: case_block where
  "upperBlock14 =
     ([(0x1F50, [0x03A5, 0x0313]), (0x1F52, [0x03A5, 0x0313, 0x0300]),
     (0x1F54, [0x03A5, 0x0313, 0x0301]), (0x1F56, [0x03A5, 0x0313, 0x0342])],
      [(0x1E9B, 0x1E9B, 1, 0x1E60), (0x1EA1, 0x1EFF, 2, 0x1EA0), (0x1F00, 0x1F07, 1, 0x1F08),
       (0x1F10, 0x1F15, 1, 0x1F18), (0x1F20, 0x1F27, 1, 0x1F28), (0x1F30, 0x1F37, 1, 0x1F38),
       (0x1F40, 0x1F45, 1, 0x1F48), (0x1F51, 0x1F57, 2, 0x1F59)])"

definition upperBlock15 :: case_block where
  "upperBlock15 =
     ([(0x1F80, [0x1F08, 0x0399]), (0x1F81, [0x1F09, 0x0399]), (0x1F82, [0x1F0A, 0x0399])],
      [(0x1F60, 0x1F67, 1, 0x1F68), (0x1F70, 0x1F71, 1, 0x1FBA), (0x1F72, 0x1F75, 1, 0x1FC8),
       (0x1F76, 0x1F77, 1, 0x1FDA), (0x1F78, 0x1F79, 1, 0x1FF8), (0x1F7A, 0x1F7B, 1, 0x1FEA),
       (0x1F7C, 0x1F7D, 1, 0x1FFA)])"

definition upperBlock16 :: case_block where
  "upperBlock16 =
     ([(0x1F83, [0x1F0B, 0x0399]), (0x1F84, [0x1F0C, 0x0399]), (0x1F85, [0x1F0D, 0x0399]),
     (0x1F86, [0x1F0E, 0x0399]), (0x1F87, [0x1F0F, 0x0399]), (0x1F88, [0x1F08, 0x0399]),
     (0x1F89, [0x1F09, 0x0399]), (0x1F8A, [0x1F0A, 0x0399]), (0x1F8B, [0x1F0B, 0x0399]),
     (0x1F8C, [0x1F0C, 0x0399])],
      [])"

definition upperBlock17 :: case_block where
  "upperBlock17 =
     ([(0x1F8D, [0x1F0D, 0x0399]), (0x1F8E, [0x1F0E, 0x0399]), (0x1F8F, [0x1F0F, 0x0399]),
     (0x1F90, [0x1F28, 0x0399]), (0x1F91, [0x1F29, 0x0399]), (0x1F92, [0x1F2A, 0x0399]),
     (0x1F93, [0x1F2B, 0x0399]), (0x1F94, [0x1F2C, 0x0399]), (0x1F95, [0x1F2D, 0x0399]),
     (0x1F96, [0x1F2E, 0x0399])],
      [])"

definition upperBlock18 :: case_block where
  "upperBlock18 =
     ([(0x1F97, [0x1F2F, 0x0399]), (0x1F98, [0x1F28, 0x0399]), (0x1F99, [0x1F29, 0x0399]),
     (0x1F9A, [0x1F2A, 0x0399]), (0x1F9B, [0x1F2B, 0x0399]), (0x1F9C, [0x1F2C, 0x0399]),
     (0x1F9D, [0x1F2D, 0x0399]), (0x1F9E, [0x1F2E, 0x0399]), (0x1F9F, [0x1F2F, 0x0399]),
     (0x1FA0, [0x1F68, 0x0399])],
      [])"

definition upperBlock19 :: case_block where
  "upperBlock19 =
     ([(0x1FA1, [0x1F69, 0x0399]), (0x1FA2, [0x1F6A, 0x0399]), (0x1FA3, [0x1F6B, 0x0399]),
     (0x1FA4, [0x1F6C, 0x0399]), (0x1FA5, [0x1F6D, 0x0399]), (0x1FA6, [0x1F6E, 0x0399]),
     (0x1FA7, [0x1F6F, 0x0399]), (0x1FA8, [0x1F68, 0x0399]), (0x1FA9, [0x1F69, 0x0399]),
     (0x1FAA, [0x1F6A, 0x0399])],
      [])"

definition upperBlock20 :: case_block where
  "upperBlock20 =
     ([(0x1FAB, [0x1F6B, 0x0399]), (0x1FAC, [0x1F6C, 0x0399]), (0x1FAD, [0x1F6D, 0x0399]),
     (0x1FAE, [0x1F6E, 0x0399]), (0x1FAF, [0x1F6F, 0x0399]), (0x1FB2, [0x1FBA, 0x0399]),
     (0x1FB3, [0x0391, 0x0399]), (0x1FB4, [0x0386, 0x0399]), (0x1FB6, [0x0391, 0x0342])],
      [(0x1FB0, 0x1FB1, 1, 0x1FB8)])"

definition upperBlock21 :: case_block where
  "upperBlock21 =
     ([(0x1FB7, [0x0391, 0x0342, 0x0399]), (0x1FBC, [0x0391, 0x0399]),
     (0x1FC2, [0x1FCA, 0x0399]), (0x1FC3, [0x0397, 0x0399]), (0x1FC4, [0x0389, 0x0399]),
     (0x1FC6, [0x0397, 0x0342]), (0x1FC7, [0x0397, 0x0342, 0x0399]),
     (0x1FCC, [0x0397, 0x0399])],
      [(0x1FBE, 0x1FBE, 1, 0x0399), (0x1FD0, 0x1FD1, 1, 0x1FD8)])"

definition upperBlock22 :: case_block where
  "upperBlock22 =
     ([(0x1FD2, [0x0399, 0x0308, 0x0300]), (0x1FD3, [0x0399, 0x0308, 0x0301]),
     (0x1FD6, [0x0399, 0x0342]), (0x1FD7, [0x0399, 0x0308, 0x0342]),
     (0x1FE2, [0x03A5, 0x0308, 0x0300]), (0x1FE3, [0x03A5, 0x0308, 0x0301]),
     (0x1FE4, [0x03A1, 0x0313]), (0x1FE6, [0x03A5, 0x0342])],
      [(0x1FE0, 0x1FE1, 1, 0x1FE8), (0x1FE5, 0x1FE5, 1, 0x1FEC)])"

definition upperBlock23 :: case_block where
  "upperBlock23 =
     ([(0x1FE7, [0x03A5, 0x0308, 0x0342]), (0x1FF2, [0x1FFA, 0x0399]),
     (0x1FF3, [0x03A9, 0x0399]), (0x1FF4, [0x038F, 0x0399]), (0x1FF6, [0x03A9, 0x0342]),
     (0x1FF7, [0x03A9, 0x0342, 0x0399]), (0x1FFC, [0x03A9, 0x0399])],
      [(0x214E, 0x214E, 1, 0x2132), (0x2170, 0x217F, 1, 0x2160), (0x2184, 0x2184, 1, 0x2183)])"

definition upperBlock24 :: case_block where
  "upperBlock24 =
     ([],
      [(0x24D0, 0x24E9, 1, 0x24B6), (0x2C30, 0x2C5F, 1, 0x2C00), (0x2C61, 0x2C61, 1, 0x2C60),
       (0x2C65, 0x2C65, 1, 0x023A), (0x2C66, 0x2C66, 1, 0x023E), (0x2C68, 0x2C6C, 2, 0x2C67),
       (0x2C73, 0x2C73, 1, 0x2C72), (0x2C76, 0x2C76, 1, 0x2C75), (0x2C81, 0x2CE3, 2, 0x2C80),
       (0x2CEC, 0x2CEE, 2, 0x2CEB)])"

definition upperBlock25 :: case_block where
  "upperBlock25 =
     ([],
      [(0x2CF3, 0x2CF3, 1, 0x2CF2), (0x2D00, 0x2D25, 1, 0x10A0), (0x2D27, 0x2D27, 1, 0x10C7),
       (0x2D2D, 0x2D2D, 1, 0x10CD), (0xA641, 0xA66D, 2, 0xA640), (0xA681, 0xA69B, 2, 0xA680),
       (0xA723, 0xA72F, 2, 0xA722), (0xA733, 0xA76F, 2, 0xA732), (0xA77A, 0xA77C, 2, 0xA779),
       (0xA77F, 0xA787, 2, 0xA77E)])"

definition upperBlock26 :: case_block where
  "upperBlock26 =
     ([],
      [(0xA78C, 0xA78C, 1, 0xA78B), (0xA791, 0xA793, 2, 0xA790), (0xA794, 0xA794, 1, 0xA7C4),
       (0xA797, 0xA7A9, 2, 0xA796), (0xA7B5, 0xA7C3, 2, 0xA7B4), (0xA7C8, 0xA7CA, 2, 0xA7C7),
       (0xA7D1, 0xA7D1, 1, 0xA7D0), (0xA7D7, 0xA7D9, 2, 0xA7D6), (0xA7F6, 0xA7F6, 1, 0xA7F5),
       (0xAB53, 0xAB53, 1, 0xA7B3)])"

definition upperBlock27 :: case_block where
  "upperBlock27 =
     ([],
      [(0xAB70, 0xABBF, 1, 0x13A0)])"

definition upperBlock28 :: case_block where
  "upperBlock28 =
     ([(0xFB00, [0x0046, 0x0046]), (0xFB01, [0x0046, 0x0049]), (0xFB02, [0x0046, 0x004C]),
     (0xFB03, [0x0046, 0x0046, 0x0049]), (0xFB04, [0x0046, 0x0046, 0x004C]),
     (0xFB05, [0x0053, 0x0054]), (0xFB06, [0x0053, 0x0054]), (0xFB13, [0x0544, 0x0546]),
     (0xFB14, [0x0544, 0x0535]), (0xFB15, [0x0544, 0x053B])],
      [])"

definition upperBlock29 :: case_block where
  "upperBlock29 =
     ([(0xFB16, [0x054E, 0x0546]), (0xFB17, [0x0544, 0x053D])],
      [(0xFF41, 0xFF5A, 1, 0xFF21)])"

text \<open>
  The upper-case mapping of a code unit that is not half of a surrogate pair. The
  surrogates \<open>0xD800\<close>..\<open>0xDFFF\<close> have no mapping.
\<close>

definition upperUnit :: "nat \<Rightarrow> jsstring" where
  "upperUnit u =
      (if u < 0x0149 then upperIn upperBlock0 u
       else if u < 0x0196 then upperIn upperBlock1 u
       else if u < 0x01BE then upperIn upperBlock2 u
       else if u < 0x01F0 then upperIn upperBlock3 u
       else if u < 0x0250 then upperIn upperBlock4 u
       else if u < 0x0261 then upperIn upperBlock5 u
       else if u < 0x0270 then upperIn upperBlock6 u
       else if u < 0x028A then upperIn upperBlock7 u
       else if u < 0x0391 then upperIn upperBlock8 u
       else if u < 0x03D2 then upperIn upperBlock9 u
       else if u < 0x03F9 then upperIn upperBlock10 u
       else if u < 0x0588 then upperIn upperBlock11 u
       else if u < 0x1C88 then upperIn upperBlock12 u
       else if u < 0x1E9B then upperIn upperBlock13 u
       else if u < 0x1F58 then upperIn upperBlock14 u
       else if u < 0x1F83 then upperIn upperBlock15 u
       else if u < 0x1F8D then upperIn upperBlock16 u
       else if u < 0x1F97 then upperIn upperBlock17 u
       else if u < 0x1FA1 then upperIn upperBlock18 u
       else if u < 0x1FAB then upperIn upperBlock19 u
       else if u < 0x1FB7 then upperIn upperBlock20 u
       else if u < 0x1FD2 then upperIn upperBlock21 u
       else if u < 0x1FE7 then upperIn upperBlock22 u
       else if u < 0x2185 then upperIn upperBlock23 u
       else if u < 0x2CEF then upperIn upperBlock24 u
       else if u < 0xA788 then upperIn upperBlock25 u
       else if u < 0xAB54 then upperIn upperBlock26 u
       else if u < 0xABC0 then upperIn upperBlock27 u
       else if u < 0xE000 then [u]
       else if u < 0xFB16 then upperIn upperBlock28 u
       else if u < 0xFF5B then upperIn upperBlock29 u
       else [u])"

text \<open>The cased letters beyond the basic plane (Deseret, Osage, Vithkuqi, Old Hungarian,
  Warang Citi, Medefaidrin, Adlam).\<close>

definition upperRangesAstral :: "case_range list" where
  "upperRangesAstral =
     [(0x10428, 0x1044F, 1, 0x10400), (0x104D8, 0x104FB, 1, 0x104B0),
      (0x10597, 0x105A1, 1, 0x10570), (0x105A3, 0x105B1, 1, 0x1057C),
      (0x105B3, 0x105B9, 1, 0x1058C), (0x105BB, 0x105BC, 1, 0x10594),
      (0x10CC0, 0x10CF2, 1, 0x10C80), (0x118C0, 0x118DF, 1, 0x118A0),
      (0x16E60, 0x16E7F, 1, 0x16E40), (0x1E922, 0x1E943, 1, 0x1E900)]"

definition isHigh :: "nat \<Rightarrow> bool" where
  "isHigh u = (0xD800 \<le> u \<and> u \<le> 0xDBFF)"

definition isLow :: "nat \<Rightarrow> bool" where
  "isLow u = (0xDC00 \<le> u \<and> u \<le> 0xDFFF)"

text \<open>The code point of a surrogate pair, and the surrogate pair of a code point.\<close>

definition codePoint :: "nat \<Rightarrow> nat \<Rightarrow> nat" where
  "codePoint h l = 0x10000 + (h - 0xD800) * 0x400 + (l - 0xDC00)"

definition surrogates :: "nat \<Rightarrow> jsstring" where
  "surrogates cp = [0xD800 + (cp - 0x10000) div 0x400, 0xDC00 + (cp - 0x10000) mod 0x400]"

definition upperPair :: "nat \<Rightarrow> nat \<Rightarrow> jsstring" where
  "upperPair h l =
     (let cp = codePoint h l
      in surrogates (case lookupRange upperRangesAstral cp of Some t \<Rightarrow> t | None \<Rightarrow> cp))"

text \<open>
  \<open>s.toUpperCase()\<close>: a high surrogate followed by a low one is one code point, every
  other code unit (a lone surrogate too) is a code point of its own.
\<close>

fun toUpperCase :: "jsstring \<Rightarrow> jsstring" where
  "toUpperCase [] = []"
| "toUpperCase [u] = upperUnit u"
| "toUpperCase (h # l # us) =
     (if isHigh h \<and> isLow l then upperPair h l @ toUpperCase us
      else upperUnit h @ toUpperCase (l # us))"

text \<open>\<open>raw.trim()\<close>\<close>

definition trim :: "jsstring \<Rightarrow> jsstring" where
  "trim s = rev (dropWhile isSpace (rev (dropWhile isSpace s)))"

text \<open>\<open>.replace(/\s+/g, '')\<close>: every run of white space is deleted.\<close>

definition removeWhitespace :: "jsstring \<Rightarrow> jsstring" where
  "removeWhitespace s = filter (\<lambda>c. \<not> isSpace c) s"

text \<open>\<open>.replace(/^#/, '')\<close>: one \<open>#\<close> at the start is deleted.\<close>

fun stripLeadingHash :: "jsstring \<Rightarrow> jsstring" where
  "stripLeadingHash [] = []"
| "stripLeadingHash (c # cs) = (if c = 0x23 then cs else c # cs)"

text \<open>
  \<open>CartDiscount.#normalizeCode\<close> on a string argument:
  \<open>raw.trim().replace(/\s+/g, '').replace(/^#/, '').toUpperCase()\<close>.
\<close>

definition normalizeCode :: "jsstring \<Rightarrow> jsstring" where
  "normalizeCode raw = toUpperCase (stripLeadingHash (removeWhitespace (trim raw)))"

text \<open>\<open>Array.prototype.join\<close> on strings.\<close>

fun join :: "jsstring \<Rightarrow> jsstring list \<Rightarrow> jsstring" where
  "join sep [] = []"
| "join sep [x] = x"
| "join sep (x # y # ys) = x @ sep @ join sep (y # ys)"

section \<open>JSON values\<close>

text \<open>
  The value \<open>res.json()\<close> resolves to. The payload of a number is never inspected by
  the component.
\<close>

datatype json =
    JNull
  | JBool bool
  | JNum int
  | JStr jsstring
  | JArr "json list"
  | JObj "(jsstring \<times> json) list"

text \<open>\<open>!data\<close> is false exactly for the truthy values.\<close>

fun truthy :: "json \<Rightarrow> bool" where
  "truthy JNull = False"
| "truthy (JBool b) = b"
| "truthy (JNum n) = (n \<noteq> 0)"
| "truthy (JStr s) = (s \<noteq> [])"
| "truthy (JArr xs) = True"
| "truthy (JObj kvs) = True"

text \<open>\<open>typeof v === 'object'\<close>\<close>

fun typeofObject :: "json \<Rightarrow> bool" where
  "typeofObject JNull = True"
| "typeofObject (JArr xs) = True"
| "typeofObject (JObj kvs) = True"
| "typeofObject v = False"

text \<open>
  A property key that is a canonical array index: \<open>0\<close>, or decimal digits that do not
  start with \<open>0\<close>.
\<close>

definition digitOf :: "nat \<Rightarrow> nat option" where
  "digitOf c = (if 0x30 \<le> c \<and> c \<le> 0x39 then Some (c - 0x30) else None)"

fun decimal :: "nat \<Rightarrow> jsstring \<Rightarrow> nat option" where
  "decimal acc [] = Some acc"
| "decimal acc (c # cs) =
     (case digitOf c of None \<Rightarrow> None | Some d \<Rightarrow> decimal (10 * acc + d) cs)"

fun arrayIndex :: "jsstring \<Rightarrow> nat option" where
  "arrayIndex [] = None"
| "arrayIndex [c] = digitOf c"
| "arrayIndex (c # cs) = (if c = 0x30 then None else decimal 0 (c # cs))"

text \<open>
  The property read \<open>v[k]\<close> on a value that is not \<open>null\<close>. \<open>None\<close> stands for
  \<open>undefined\<close> and for the inherited members of the prototypes (methods), which the
  component cannot tell from \<open>undefined\<close>: it only asks whether the value read is a
  string, an array, or identical to a boolean. An object from \<open>JSON.parse\<close> has each
  own key once.
\<close>

fun getProp :: "json \<Rightarrow> jsstring \<Rightarrow> json option" where
  "getProp (JObj kvs) k = map_of kvs k"
| "getProp (JArr xs) k =
     (if k = js ''length'' then Some (JNum (int (length xs)))
      else case arrayIndex k of
             Some i \<Rightarrow> if i < length xs then Some (xs ! i) else None
           | None \<Rightarrow> None)"
| "getProp (JStr s) k =
     (if k = js ''length'' then Some (JNum (int (length s)))
      else case arrayIndex k of
             Some i \<Rightarrow> if i < length s then Some (JStr [s ! i]) else None
           | None \<Rightarrow> None)"
| "getProp v k = None"

text \<open>
  \<open>#normalizeCode\<close> on whatever a property read gave:
  \<open>if (typeof raw !== 'string') return ''\<close>.
\<close>

fun normalizeCodeAny :: "json option \<Rightarrow> jsstring" where
  "normalizeCodeAny (Some (JStr raw)) = normalizeCode raw"
| "normalizeCodeAny v = []"

text \<open>An exception is modelled by its \<open>name\<close>.\<close>

type_synonym exn = string

text \<open>
  The callback \<open>(d) => this.#normalizeCode(d.code) === code && d.applicable === flag\<close>
  on an entry that is not \<open>null\<close>.
\<close>

definition entryMatches :: "jsstring \<Rightarrow> bool \<Rightarrow> json \<Rightarrow> bool" where
  "entryMatches code flag d =
     (normalizeCodeAny (getProp d (js ''code'')) = code \<and> getProp d (js ''applicable'') = Some (JBool flag))"

text \<open>
  \<open>ds.some(callback)\<close>: the entries are visited in order up to the first match; reading
  \<open>d.code\<close> of a \<open>null\<close> entry throws a \<open>TypeError\<close>.
\<close>

fun someEntry :: "jsstring \<Rightarrow> bool \<Rightarrow> json list \<Rightarrow> exn + bool" where
  "someEntry code flag [] = Inr False"
| "someEntry code flag (d # ds) =
     (if d = JNull then Inl ''TypeError''
      else if entryMatches code flag d then Inr True
      else someEntry code flag ds)"

text \<open>
  \<open>Array.isArray(data.discount_codes) ? data.discount_codes.some(...) : false\<close>, for
  \<open>flag = False\<close> the source's \<open>notApplicable\<close> and for \<open>flag = True\<close> its
  \<open>applicable\<close>.
\<close>

definition flagged :: "jsstring \<Rightarrow> bool \<Rightarrow> json \<Rightarrow> exn + bool" where
  "flagged code flag data =
     (case getProp data (js ''discount_codes'') of
        Some (JArr ds) \<Rightarrow> someEntry code flag ds
      | _ \<Rightarrow> Inr False)"

text \<open>The entries of \<open>data.discount_codes\<close> when it is an array.\<close>

definition discountCodes :: "json \<Rightarrow> json list" where
  "discountCodes data =
     (case getProp data (js ''discount_codes'') of Some (JArr ds) \<Rightarrow> ds | _ \<Rightarrow> [])"

text \<open>\<open>data.sections?.[key]\<close>\<close>

definition sectionsEntry :: "json \<Rightarrow> jsstring \<Rightarrow> json option" where
  "sectionsEntry data key =
     (case getProp data (js ''sections'') of
        None \<Rightarrow> None
      | Some JNull \<Rightarrow> None
      | Some secs \<Rightarrow> getProp secs key)"

section \<open>The cart discount component\<close>

text \<open>
  An element matched by \<open>.cart-discount__pill\<close>: whether it is an \<open>HTMLLIElement\<close>, and
  its \<open>dataset.discountCode\<close> (\<open>None\<close> when the attribute is absent).
\<close>

record pill =
  isLi :: bool
  discountCode :: "jsstring option"

text \<open>The body of the update request and the abort controller whose signal it carries.\<close>

record request =
  discount :: jsstring
  sections :: "jsstring list"
  signal :: nat

datatype error_type = DiscountCodeError | ShippingError

text \<open>
  The component with the part of the document it reads and writes.
  \<^item> \<open>sectionId\<close> is \<open>this.dataset.sectionId\<close>, \<open>componentId\<close> is \<open>this.id\<close>;
  \<^item> \<open>pills\<close> are the elements \<open>this.querySelectorAll('.cart-discount__pill')\<close> finds;
  \<^item> \<open>inputValue\<close> is the value of the form's \<open>input[name="discount"]\<close>, \<open>None\<close> when
    the form has no such \<open>HTMLInputElement\<close>;
  \<^item> \<open>formHasSubmit\<close>, \<open>submitDisabled\<close>, \<open>submitAriaBusy\<close> describe the form's
    \<open>[type="submit"]\<close> element; \<open>submitBtn\<close> says that the field \<open>#submitBtn\<close> holds it;
  \<^item> \<open>statusLive\<close> is the text of the live region \<open>#statusLive\<close>, \<open>None\<close> before it is
    created;
  \<^item> \<open>errorHidden\<close>, \<open>errorDiscountCodeHidden\<close>, \<open>errorShippingHidden\<close> say that the
    three required refs carry the class \<open>hidden\<close>;
  \<^item> \<open>activeFetch\<close> is the field \<open>#activeFetch\<close>, abort controllers being numbered as
    they are created (\<open>nextController\<close>); \<open>aborted\<close> lists the controllers aborted;
  \<^item> \<open>requests\<close>, \<open>dispatched\<close> and \<open>morphed\<close> log the calls of \<open>fetch\<close>, of
    \<open>document.dispatchEvent(new DiscountUpdateEvent(data, this.id))\<close> and of
    \<open>morphSection(sectionId, html)\<close>.
\<close>

record cart_discount =
  sectionId :: "jsstring option"
  componentId :: jsstring
  pills :: "pill list"
  inputValue :: "jsstring option"
  formHasSubmit :: bool
  submitDisabled :: bool
  submitAriaBusy :: bool
  submitBtn :: bool
  statusLive :: "jsstring option"
  errorHidden :: bool
  errorDiscountCodeHidden :: bool
  errorShippingHidden :: bool
  activeFetch :: "nat option"
  nextController :: nat
  aborted :: "nat list"
  requests :: "request list"
  dispatched :: "(json \<times> jsstring) list"
  morphed :: "(jsstring \<times> jsstring) list"

text \<open>\<open>#newAbort\<close>: aborts the controller in \<open>#activeFetch\<close> and installs a new one.\<close>

definition newAbort :: "cart_discount \<Rightarrow> nat \<times> cart_discount" where
  "newAbort st =
     (let st1 = (case activeFetch st of
                   Some c \<Rightarrow> st\<lparr>aborted := aborted st @ [c]\<rparr>
                 | None \<Rightarrow> st);
          c' = nextController st1
      in (c', st1\<lparr>activeFetch := Some c', nextController := Suc c'\<rparr>))"

text \<open>\<open>#existingDiscounts\<close>\<close>

definition existingDiscounts :: "cart_discount \<Rightarrow> jsstring list" where
  "existingDiscounts st =
     concat (map (\<lambda>p. if isLi p then (case discountCode p of
                                        Some c \<Rightarrow> [normalizeCode c]
                                      | None \<Rightarrow> [])
                       else [])
                 (pills st))"

text \<open>\<open>#lockUI(form, label)\<close>\<close>

definition lockUI :: "jsstring \<Rightarrow> cart_discount \<Rightarrow> cart_discount" where
  "lockUI label st =
     (let st1 = st\<lparr>submitBtn := formHasSubmit st\<rparr>;
          st2 = (if submitBtn st1 then st1\<lparr>submitDisabled := True, submitAriaBusy := True\<rparr>
                 else st1)
      in st2\<lparr>statusLive := Some label\<rparr>)"

text \<open>\<open>#unlockUI(label)\<close>\<close>

definition unlockUI :: "jsstring \<Rightarrow> cart_discount \<Rightarrow> cart_discount" where
  "unlockUI label st =
     (let st1 = (if submitBtn st then st\<lparr>submitDisabled := False, submitAriaBusy := False\<rparr>
                 else st)
      in case statusLive st1 of
           Some t \<Rightarrow> st1\<lparr>statusLive := Some label\<rparr>
         | None \<Rightarrow> st1)"

text \<open>\<open>#hideAllErrors\<close>\<close>

definition hideAllErrors :: "cart_discount \<Rightarrow> cart_discount" where
  "hideAllErrors st =
     st\<lparr>errorHidden := True, errorDiscountCodeHidden := True, errorShippingHidden := True\<rparr>"

text \<open>\<open>#showError(type)\<close>\<close>

definition showError :: "error_type \<Rightarrow> cart_discount \<Rightarrow> cart_discount" where
  "showError type st =
     (let st1 = st\<lparr>errorHidden := False\<rparr>;
          st2 = (if type = DiscountCodeError then st1\<lparr>errorDiscountCodeHidden := False\<rparr>
                 else st1\<lparr>errorShippingHidden := False\<rparr>)
      in case statusLive st2 of
           Some t \<Rightarrow> st2\<lparr>statusLive := Some []\<rparr>
         | None \<Rightarrow> st2)"

text \<open>
  The property key \<open>this.dataset.sectionId\<close> gives when it is read again after the
  response: \<open>undefined\<close> is turned into the key \<open>"undefined"\<close>.
\<close>

definition sectionKey :: "cart_discount \<Rightarrow> jsstring" where
  "sectionKey st = (case sectionId st of Some s \<Rightarrow> s | None \<Rightarrow> js ''undefined'')"

subsection \<open>applyDiscount\<close>

text \<open>
  The submit event: whether \<open>event.target\<close> is an \<open>HTMLFormElement\<close>.
  \<open>preventDefault\<close> and \<open>stopPropagation\<close> act on the event alone and
  \<open>cartPerformance.measureFromEvent\<close> on nothing the component owns; they are left out.
\<close>

record submit_event =
  targetIsForm :: bool

text \<open>
  What the suspended \<open>applyDiscount\<close> keeps in its local variables while it awaits the
  response: its \<open>code\<close>, \<open>existing\<close> and \<open>controller\<close>.
\<close>

record apply_pending =
  pendingCode :: jsstring
  pendingExisting :: "jsstring list"
  pendingController :: nat

text \<open>
  \<open>applyDiscount\<close> from its entry to \<open>await fetch(...)\<close>. The second component is
  \<open>None\<close> when the handler returned before issuing a request. The label of the source
  ends in the ellipsis character, written here as three dots.
\<close>

definition applyDiscount_start ::
  "submit_event \<Rightarrow> cart_discount \<Rightarrow> cart_discount \<times> apply_pending option" where
  "applyDiscount_start event st =
     (if \<not> targetIsForm event then (st, None)
      else case sectionId st of
        None \<Rightarrow> (st, None)
      | Some sid \<Rightarrow>
         (case inputValue st of
            None \<Rightarrow> (st, None)
          | Some v \<Rightarrow>
             (let code = normalizeCode v in
              if code = [] then (st, None)
              else
               (let existing = existingDiscounts st in
                if code \<in> set existing then (st\<lparr>inputValue := Some []\<rparr>, None)
                else
                 (let st1 = lockUI (js ''Applying...'') (hideAllErrors st);
                      (controller, st2) = newAbort st1;
                      body = \<lparr>discount = join (js '','') (existing @ [code]),
                              sections = [sid],
                              signal = controller\<rparr>
                  in (st2\<lparr>requests := requests st2 @ [body]\<rparr>,
                      Some \<lparr>pendingCode = code, pendingExisting = existing,
                            pendingController = controller\<rparr>))))))"

text \<open>
  How the two awaits end: \<open>fetch\<close> rejects with an exception, or it resolves to a response
  with its \<open>ok\<close> flag and the result of \<open>res.json()\<close> (\<open>None\<close> when that rejects).
\<close>

datatype fetch_outcome =
    Rejected exn
  | Responded bool "json option"

text \<open>
  \<open>let data = {}; try { data = await res.json(); } catch { }\<close>
\<close>

definition responseData :: "json option \<Rightarrow> json" where
  "responseData parsed = (case parsed of Some j \<Rightarrow> j | None \<Rightarrow> JObj [])"

text \<open>
  The codes of the pills of the returned markup:
  \<open>.map((el) => (el instanceof HTMLLIElement ? normalize(el.dataset.discountCode || '') : ''))
  .filter(Boolean)\<close>.
\<close>

definition nextCodesOf :: "pill list \<Rightarrow> jsstring list" where
  "nextCodesOf ps =
     filter (\<lambda>c. c \<noteq> [])
       (map (\<lambda>el. if isLi el
                   then normalizeCode (case discountCode el of Some c \<Rightarrow> c | None \<Rightarrow> [])
                   else [])
            ps)"

text \<open>
  \<open>nextCodes.length === existing.length && nextCodes.every((c) => existing.includes(c))\<close>
\<close>

definition noNewPill :: "jsstring list \<Rightarrow> jsstring list \<Rightarrow> bool" where
  "noNewPill nextCodes existing =
     (length nextCodes = length existing \<and> list_all (\<lambda>c. c \<in> set existing) nextCodes)"

text \<open>
  The \<open>try\<close> block of \<open>applyDiscount\<close> after the awaits. \<open>Inl\<close> is an exception that
  reaches the \<open>catch\<close>; every exception of the block is thrown before the block has
  written anything. The parameter \<open>sectionPills key html\<close> stands for the browser's
  \<open>DOMParser\<close>: the \<open>.cart-discount__pill\<close> elements below the element with id
  \<open>shopify-section-<key>\<close> of the parsed markup, none when there is no such element.
\<close>

definition applyDiscount_try ::
  "(jsstring \<Rightarrow> jsstring \<Rightarrow> pill list) \<Rightarrow> apply_pending \<Rightarrow> fetch_outcome \<Rightarrow> cart_discount
     \<Rightarrow> exn + cart_discount" where
  "applyDiscount_try sectionPills p outcome st =
     (case outcome of
        Rejected e \<Rightarrow> Inl e
      | Responded ok parsed \<Rightarrow>
         (let data = responseData parsed in
          if \<not> ok \<or> \<not> truthy data \<or> \<not> typeofObject data
          then Inr (showError DiscountCodeError st)
          else case flagged (pendingCode p) False data of
            Inl e \<Rightarrow> Inl e
          | Inr notApplicable \<Rightarrow>
             if notApplicable
             then Inr (showError DiscountCodeError (st\<lparr>inputValue := Some []\<rparr>))
             else
              (case sectionsEntry data (sectionKey st) of
                 Some (JStr newHtml) \<Rightarrow>
                  (let nextCodes = nextCodesOf (sectionPills (sectionKey st) newHtml) in
                   case flagged (pendingCode p) True data of
                     Inl e \<Rightarrow> Inl e
                   | Inr applicable \<Rightarrow>
                      if applicable \<and> noNewPill nextCodes (pendingExisting p)
                      then Inr ((showError ShippingError st)\<lparr>inputValue := Some []\<rparr>)
                      else Inr (st\<lparr>dispatched := dispatched st @ [(data, componentId st)],
                                   morphed := morphed st @ [(sectionKey st, newHtml)],
                                   inputValue := Some []\<rparr>))
               | _ \<Rightarrow> Inr (st\<lparr>inputValue := Some []\<rparr>))))"

text \<open>
  The settlement of \<open>applyDiscount\<close>: the \<open>try\<close> block, the \<open>catch\<close>
  (\<open>if (err?.name !== 'AbortError') this.#showError('discount_code')\<close>) and the
  \<open>finally\<close> (\<open>this.#activeFetch = null; this.#unlockUI('')\<close>), run on the state the
  component is in when the awaited promise settles.
\<close>

definition applyDiscount_settle ::
  "(jsstring \<Rightarrow> jsstring \<Rightarrow> pill list) \<Rightarrow> apply_pending \<Rightarrow> fetch_outcome \<Rightarrow> cart_discount
     \<Rightarrow> cart_discount" where
  "applyDiscount_settle sectionPills p outcome st =
     (let st1 = (case applyDiscount_try sectionPills p outcome st of
                   Inl e \<Rightarrow> if e \<noteq> ''AbortError'' then showError DiscountCodeError st else st
                 | Inr st' \<Rightarrow> st')
      in unlockUI [] (st1\<lparr>activeFetch := None\<rparr>))"

subsection \<open>removeDiscount\<close>

text \<open>
  The click or keydown event: \<open>keyboardKey\<close> is \<open>event.key\<close> of a \<open>KeyboardEvent\<close>
  (\<open>None\<close> for another event), \<open>targetIsElement\<close> says that \<open>event.target\<close> is an
  \<open>HTMLElement\<close>, \<open>closestPill\<close> is \<open>event.target.closest('.cart-discount__pill')\<close>.
\<close>

record remove_event =
  keyboardKey :: "jsstring option"
  targetIsElement :: bool
  closestPill :: "pill option"

record remove_pending =
  remaining :: "jsstring list"
  removeController :: nat

text \<open>\<open>removeDiscount\<close> from its entry to \<open>await fetch(...)\<close>.\<close>

definition removeDiscount_start ::
  "remove_event \<Rightarrow> cart_discount \<Rightarrow> cart_discount \<times> remove_pending option" where
  "removeDiscount_start event st =
     (if (case keyboardKey event of Some k \<Rightarrow> k \<noteq> js ''Enter'' | None \<Rightarrow> False) then (st, None)
      else if \<not> targetIsElement event then (st, None)
      else case sectionId st of
        None \<Rightarrow> (st, None)
      | Some sid \<Rightarrow>
         (case closestPill event of
            None \<Rightarrow> (st, None)
          | Some pl \<Rightarrow>
             if \<not> isLi pl then (st, None)
             else
              (let code = normalizeCode (case discountCode pl of Some c \<Rightarrow> c | None \<Rightarrow> []) in
               if code = [] then (st, None)
               else
                (let existing = existingDiscounts st in
                 if code \<notin> set existing then (st, None)
                 else
                  (let existing' = remove1 code existing;
                       (controller, st1) = newAbort st;
                       body = \<lparr>discount = join (js '','') existing',
                               sections = [sid],
                               signal = controller\<rparr>
                   in (st1\<lparr>requests := requests st1 @ [body]\<rparr>,
                       Some \<lparr>remaining = existing', removeController = controller\<rparr>))))))"

text \<open>
  The settlement of \<open>removeDiscount\<close>: the \<open>catch\<close> swallows every exception, the
  \<open>finally\<close> is \<open>this.#activeFetch = null\<close>.
\<close>

definition removeDiscount_try :: "fetch_outcome \<Rightarrow> cart_discount \<Rightarrow> exn + cart_discount" where
  "removeDiscount_try outcome st =
     (case outcome of
        Rejected e \<Rightarrow> Inl e
      | Responded ok parsed \<Rightarrow>
         (let data = responseData parsed in
          if \<not> ok \<or> \<not> truthy data \<or> \<not> typeofObject data then Inr st
          else
           (let st1 = st\<lparr>dispatched := dispatched st @ [(data, componentId st)]\<rparr> in
            case sectionsEntry data (sectionKey st1) of
              Some (JStr html) \<Rightarrow> Inr (st1\<lparr>morphed := morphed st1 @ [(sectionKey st1, html)]\<rparr>)
            | _ \<Rightarrow> Inr st1)))"

definition removeDiscount_settle :: "fetch_outcome \<Rightarrow> cart_discount \<Rightarrow> cart_discount" where
  "removeDiscount_settle outcome st =
     (let st1 = (case removeDiscount_try outcome st of Inl e \<Rightarrow> st | Inr st' \<Rightarrow> st')
      in st1\<lparr>activeFetch := None\<rparr>)"

text \<open>
  The component as its field initialisers leave it (\<open>#activeFetch\<close>, \<open>#submitBtn\<close> and
  \<open>#statusLive\<close> are \<open>null\<close>), in a document where the three error refs are hidden and the
  form has a submit button and an input holding \<open>v\<close>.
\<close>

definition freshComponent :: "jsstring \<Rightarrow> jsstring \<Rightarrow> pill list \<Rightarrow> jsstring \<Rightarrow> cart_discount" where
  "freshComponent sid cid ps v =
     \<lparr>sectionId = Some sid, componentId = cid, pills = ps, inputValue = Some v,
      formHasSubmit = True, submitDisabled = False, submitAriaBusy = False, submitBtn = False,
      statusLive = None, errorHidden = True, errorDiscountCodeHidden = True,
      errorShippingHidden = True, activeFetch = None, nextController = 0, aborted = [],
      requests = [], dispatched = [], morphed = []\<rparr>"

section \<open>Checking the upper-case tables\<close>

text \<open>
  What the proofs about the tables check of them: a code unit is \<open>plain\<close> when it is
  its own upper case, no surrogate and no white space; a block is checked when every
  code unit it maps to is plain.
\<close>

definition isSurrogate :: "nat \<Rightarrow> bool" where
  "isSurrogate u = (0xD800 \<le> u \<and> u \<le> 0xDFFF)"

definition plain :: "nat \<Rightarrow> bool" where
  "plain v = (upperUnit v = [v] \<and> \<not> isSurrogate v \<and> \<not> isSpace v)"

fun elems :: "case_range \<Rightarrow> nat list" where
  "elems (lo, hi, step, target) = map (\<lambda>k. target + k * step) [0..<Suc ((hi - lo) div step)]"

fun blockChecked :: "case_block \<Rightarrow> bool" where
  "blockChecked (special, ranges) =
     (list_all (\<lambda>(k, vs). vs \<noteq> [] \<and> list_all plain vs) special \<and>
      list_all (\<lambda>r. list_all plain (elems r)) ranges)"

definition mapsWell :: "nat \<Rightarrow> jsstring \<Rightarrow> bool" where
  "mapsWell u vs = (vs = [u] \<or> (vs \<noteq> [] \<and> list_all plain vs))"

definition astralPlain :: "nat \<Rightarrow> bool" where
  "astralPlain v = (0x10000 \<le> v \<and> v \<le> 0x10FFFF \<and> lookupRange upperRangesAstral v = None)"

section \<open>The upper-case tables\<close>

lemma lookupRange_elems: "lookupRange rs u = Some t \<Longrightarrow> \<exists>r\<in>set rs. t \<in> set (elems r)"
proof (induction rs)
  case Nil
  then show ?case by simp
next
  case (Cons r rs)
  obtain lo hi step target where r: "r = (lo, hi, step, target)" by (cases r) auto
  show ?case
  proof (cases "lo \<le> u \<and> u \<le> hi \<and> (u - lo) mod step = 0")
    case True
    then have t: "t = target + (u - lo)" using Cons.prems r by simp
    define k where "k = (u - lo) div step"
    from True have "k * step = u - lo" by (simp add: k_def mod_0_imp_dvd)
    then have "t = target + k * step" using t by simp
    moreover from True have "u - lo \<le> hi - lo" by linarith
    then have "k \<le> (hi - lo) div step" unfolding k_def by (rule div_le_mono)
    then have "k \<in> set [0..<Suc ((hi - lo) div step)]" by (simp del: upt_Suc)
    ultimately have "t \<in> (\<lambda>k. target + k * step) ` set [0..<Suc ((hi - lo) div step)]"
      by (rule image_eqI)
    then have "t \<in> set (elems r)" by (simp add: r del: upt_Suc)
    then show ?thesis by simp
  next
    case False
    have "lookupRange (r # rs) u = lookupRange rs u"
      unfolding r by (simp only: lookupRange.simps False if_False)
    then have "lookupRange rs u = Some t" using Cons.prems by simp
    then show ?thesis using Cons.IH by auto
  qed
qed

lemma upperIn_checked: "blockChecked b \<Longrightarrow> mapsWell u (upperIn b u)"
proof -
  assume c: "blockChecked b"
  obtain special ranges where b: "b = (special, ranges)" by (cases b) auto
  show ?thesis
  proof (cases "map_of special u")
    case (Some vs)
    then have "(u, vs) \<in> set special" by (rule map_of_SomeD)
    then have "vs \<noteq> [] \<and> list_all plain vs"
      using c b by (auto simp: list_all_iff)
    then show ?thesis using Some b by (simp add: mapsWell_def)
  next
    case None
    show ?thesis
    proof (cases "lookupRange ranges u")
      case (Some t)
      then obtain r where "r \<in> set ranges" "t \<in> set (elems r)"
        using lookupRange_elems by blast
      then have "plain t" using c b by (auto simp: list_all_iff)
      then show ?thesis using None Some b by (simp add: mapsWell_def)
    next
      case None2: None
      then show ?thesis using None b by (simp add: mapsWell_def)
    qed
  qed
qed

lemma upperBlock0_checked: "blockChecked upperBlock0"
  by code_simp

lemma upperBlock1_checked: "blockChecked upperBlock1"
  by code_simp

lemma upperBlock2_checked: "blockChecked upperBlock2"
  by code_simp

lemma upperBlock3_checked: "blockChecked upperBlock3"
  by code_simp

lemma upperBlock4_checked: "blockChecked upperBlock4"
  by code_simp

lemma upperBlock5_checked: "blockChecked upperBlock5"
  by code_simp

lemma upperBlock6_checked: "blockChecked upperBlock6"
  by code_simp

lemma upperBlock7_checked: "blockChecked upperBlock7"
  by code_simp

lemma upperBlock8_checked: "blockChecked upperBlock8"
  by code_simp

lemma upperBlock9_checked: "blockChecked upperBlock9"
  by code_simp

lemma upperBlock10_checked: "blockChecked upperBlock10"
  by code_simp

lemma upperBlock11_checked: "blockChecked upperBlock11"
  by code_simp

lemma upperBlock12_checked: "blockChecked upperBlock12"
  by code_simp

lemma upperBlock13_checked: "blockChecked upperBlock13"
  by code_simp

lemma upperBlock14_checked: "blockChecked upperBlock14"
  by code_simp

lemma upperBlock15_checked: "blockChecked upperBlock15"
  by code_simp

lemma upperBlock16_checked: "blockChecked upperBlock16"
  by code_simp

lemma upperBlock17_checked: "blockChecked upperBlock17"
  by code_simp

lemma upperBlock18_checked: "blockChecked upperBlock18"
  by code_simp

lemma upperBlock19_checked: "blockChecked upperBlock19"
  by code_simp

lemma upperBlock20_checked: "blockChecked upperBlock20"
  by code_simp

lemma upperBlock21_checked: "blockChecked upperBlock21"
  by code_simp

lemma upperBlock22_checked: "blockChecked upperBlock22"
  by code_simp

lemma upperBlock23_checked: "blockChecked upperBlock23"
  by code_simp

lemma upperBlock24_checked: "blockChecked upperBlock24"
  by code_simp

lemma upperBlock25_checked: "blockChecked upperBlock25"
  by code_simp

lemma upperBlock26_checked: "blockChecked upperBlock26"
  by code_simp

lemma upperBlock27_checked: "blockChecked upperBlock27"
  by code_simp

lemma upperBlock28_checked: "blockChecked upperBlock28"
  by code_simp

lemma upperBlock29_checked: "blockChecked upperBlock29"
  by code_simp

lemmas upperBlocks_checked = upperBlock0_checked upperBlock1_checked upperBlock2_checked upperBlock3_checked upperBlock4_checked upperBlock5_checked upperBlock6_checked upperBlock7_checked upperBlock8_checked upperBlock9_checked upperBlock10_checked upperBlock11_checked upperBlock12_checked upperBlock13_checked upperBlock14_checked upperBlock15_checked upperBlock16_checked upperBlock17_checked upperBlock18_checked upperBlock19_checked upperBlock20_checked upperBlock21_checked upperBlock22_checked upperBlock23_checked upperBlock24_checked upperBlock25_checked upperBlock26_checked upperBlock27_checked upperBlock28_checked upperBlock29_checked

lemma mapsWell_self: "mapsWell u [u]"
  by (simp add: mapsWell_def)

lemma upperUnit_mapsWell: "mapsWell u (upperUnit u)"
  by (simp add: upperUnit_def upperIn_checked upperBlocks_checked mapsWell_self)

lemma upperUnit_surrogate: "isSurrogate u \<Longrightarrow> upperUnit u = [u]"
  by (simp add: upperUnit_def isSurrogate_def)

lemma upperUnit_not_empty: "upperUnit u \<noteq> []"
  using upperUnit_mapsWell [of u] by (auto simp: mapsWell_def)

lemma isSurrogate_iff: "isSurrogate u \<longleftrightarrow> isHigh u \<or> isLow u"
  by (auto simp: isSurrogate_def isHigh_def isLow_def)

lemma not_high_and_low: "isHigh u \<Longrightarrow> \<not> isLow u"
  by (simp add: isHigh_def isLow_def)

lemma surrogate_not_space: "isSurrogate u \<Longrightarrow> \<not> isSpace u"
  by (auto simp: isSurrogate_def isSpace_def whiteSpace_def)

lemma toUpperCase_Cons: "\<not> isHigh c \<Longrightarrow> toUpperCase (c # cs) = upperUnit c @ toUpperCase cs"
  by (cases cs) simp_all

lemma toUpperCase_pair:
  "isHigh h \<and> isLow l \<Longrightarrow> toUpperCase (h # l # us) = upperPair h l @ toUpperCase us"
  by simp

lemma toUpperCase_no_pair:
  "\<not> (isHigh h \<and> isLow l) \<Longrightarrow> toUpperCase (h # l # us) = upperUnit h @ toUpperCase (l # us)"
  by auto

lemma toUpperCase_plain: "list_all plain vs \<Longrightarrow> toUpperCase vs = vs"
proof (induction vs)
  case Nil
  then show ?case by simp
next
  case (Cons v vs)
  then have "plain v" and "toUpperCase vs = vs" by simp_all
  moreover from \<open>plain v\<close> have "\<not> isHigh v" "upperUnit v = [v]"
    by (simp_all add: plain_def isSurrogate_iff)
  ultimately show ?case by (simp add: toUpperCase_Cons)
qed

lemma toUpperCase_upperUnit: "toUpperCase (upperUnit u) = upperUnit u"
  using upperUnit_mapsWell [of u] by (auto simp: mapsWell_def toUpperCase_plain)

lemma upperUnit_last_high: "isHigh (last (upperUnit u)) \<Longrightarrow> isHigh u"
  using upperUnit_mapsWell [of u]
  by (auto simp: mapsWell_def list_all_iff plain_def isSurrogate_iff)

lemma upperUnit_hd_low: "isLow (hd (upperUnit u)) \<Longrightarrow> isLow u"
  using upperUnit_mapsWell [of u]
  by (auto simp: mapsWell_def list_all_iff plain_def isSurrogate_iff)

lemma upperUnit_space: "\<not> isSpace u \<Longrightarrow> v \<in> set (upperUnit u) \<Longrightarrow> \<not> isSpace v"
  using upperUnit_mapsWell [of u]
  by (auto simp: mapsWell_def list_all_iff plain_def)

lemma upperRangesAstral_checked:
  "list_all (\<lambda>r. list_all astralPlain (elems r)) upperRangesAstral"
  by code_simp

text \<open>A surrogate pair is mapped to a surrogate pair, which is mapped to itself.\<close>

lemma upperPair_pair:
  assumes "isHigh h" and "isLow l"
  shows "\<exists>h' l'. upperPair h l = [h', l'] \<and> isHigh h' \<and> isLow l' \<and> upperPair h' l' = [h', l']"
proof -
  define cp where "cp = codePoint h l"
  define cp' where "cp' = (case lookupRange upperRangesAstral cp of Some t \<Rightarrow> t | None \<Rightarrow> cp)"
  have "h - 0xD800 \<le> 0x3FF" "l - 0xDC00 \<le> 0x3FF"
    using assms unfolding isHigh_def isLow_def by linarith+
  then have "(h - 0xD800) * 0x400 + (l - 0xDC00) \<le> 0x3FF * 0x400 + 0x3FF"
    by (intro add_mono mult_le_mono1)
  then have cp: "0x10000 \<le> cp \<and> cp \<le> 0x10FFFF"
    by (simp add: cp_def codePoint_def)
  have "astralPlain cp'"
  proof (cases "lookupRange upperRangesAstral cp")
    case None
    then show ?thesis using cp by (simp add: cp'_def astralPlain_def)
  next
    case (Some t)
    then obtain r where "r \<in> set upperRangesAstral" "t \<in> set (elems r)"
      using lookupRange_elems by blast
    then have "astralPlain t" using upperRangesAstral_checked by (auto simp: list_all_iff)
    then show ?thesis using Some by (simp add: cp'_def)
  qed
  then have b: "0x10000 \<le> cp'" "cp' \<le> 0x10FFFF" and f: "lookupRange upperRangesAstral cp' = None"
    by (simp_all add: astralPlain_def)
  define h' where "h' = 0xD800 + (cp' - 0x10000) div 0x400"
  define l' where "l' = 0xDC00 + (cp' - 0x10000) mod 0x400"
  have p: "upperPair h l = [h', l']"
    by (simp add: upperPair_def Let_def cp_def [symmetric] cp'_def [symmetric] surrogates_def
                  h'_def l'_def)
  have hi: "isHigh h'" using b by (simp add: h'_def isHigh_def)
  have lo: "isLow l'" by (simp add: l'_def isLow_def)
  have "codePoint h' l' = cp'"
    using b by (simp add: codePoint_def h'_def l'_def)
  then have "upperPair h' l' = [h', l']"
    using f by (simp add: upperPair_def Let_def surrogates_def h'_def l'_def)
  with p hi lo show ?thesis by blast
qed

lemma toUpperCase_hd_low:
  "toUpperCase s \<noteq> [] \<Longrightarrow> isLow (hd (toUpperCase s)) \<Longrightarrow> s \<noteq> [] \<and> isLow (hd s)"
proof (induction s rule: toUpperCase.induct)
  case 1
  then show ?case by simp
next
  case (2 u)
  then show ?case by (simp add: upperUnit_hd_low)
next
  case (3 h l us)
  show ?case
  proof (cases "isHigh h \<and> isLow l")
    case True
    then obtain h' l' where "upperPair h l = [h', l']" "isHigh h'"
      using upperPair_pair by blast
    then have "hd (toUpperCase (h # l # us)) = h'" "isHigh h'"
      using True by (simp_all add: toUpperCase_pair del: toUpperCase.simps)
    then show ?thesis using 3(4) by (simp add: not_high_and_low del: toUpperCase.simps)
  next
    case False
    then have "hd (toUpperCase (h # l # us)) = hd (upperUnit h)"
      by (simp add: toUpperCase_no_pair upperUnit_not_empty del: toUpperCase.simps)
    then show ?thesis using 3(4) by (simp add: upperUnit_hd_low del: toUpperCase.simps)
  qed
qed

lemma toUpperCase_append:
  "\<not> (xs \<noteq> [] \<and> isHigh (last xs) \<and> ys \<noteq> [] \<and> isLow (hd ys)) \<Longrightarrow>
     toUpperCase (xs @ ys) = toUpperCase xs @ toUpperCase ys"
proof (induction xs rule: toUpperCase.induct)
  case 1
  then show ?case by simp
next
  case (2 u)
  then show ?case by (cases ys) auto
next
  case (3 h l us)
  show ?case
  proof (cases "isHigh h \<and> isLow l")
    case True
    have "toUpperCase (us @ ys) = toUpperCase us @ toUpperCase ys"
    proof (cases us)
      case Nil
      then show ?thesis by simp
    next
      case (Cons a as)
      then show ?thesis using 3(1) [OF True] 3(3) by simp
    qed
    then show ?thesis using True by (simp add: toUpperCase_pair del: toUpperCase.simps)
  next
    case False
    have "toUpperCase ((l # us) @ ys) = toUpperCase (l # us) @ toUpperCase ys"
      using 3(2) [OF False] 3(3) by simp
    then show ?thesis using False by (simp add: toUpperCase_no_pair del: toUpperCase.simps)
  qed
qed

text \<open>\<open>toUpperCase\<close> is idempotent.\<close>

lemma toUpperCase_idem: "toUpperCase (toUpperCase s) = toUpperCase s"
proof (induction s rule: toUpperCase.induct)
  case 1
  then show ?case by simp
next
  case (2 u)
  then show ?case by (simp add: toUpperCase_upperUnit)
next
  case (3 h l us)
  show ?case
  proof (cases "isHigh h \<and> isLow l")
    case True
    then obtain h' l' where p: "upperPair h l = [h', l']" "isHigh h'" "isLow l'"
      "upperPair h' l' = [h', l']"
      using upperPair_pair by blast
    have "toUpperCase (toUpperCase us) = toUpperCase us" using 3(1) [OF True] .
    then show ?thesis using True p by (simp add: toUpperCase_pair del: toUpperCase.simps)
  next
    case False
    let ?Y = "toUpperCase (l # us)"
    have ih: "toUpperCase ?Y = ?Y" using 3(2) [OF False] .
    have "\<not> (upperUnit h \<noteq> [] \<and> isHigh (last (upperUnit h)) \<and> ?Y \<noteq> [] \<and> isLow (hd ?Y))"
    proof
      assume a: "upperUnit h \<noteq> [] \<and> isHigh (last (upperUnit h)) \<and> ?Y \<noteq> [] \<and> isLow (hd ?Y)"
      then have "isHigh h" by (simp add: upperUnit_last_high)
      moreover from a have "isLow (hd (l # us))" using toUpperCase_hd_low by blast
      ultimately show False using False by simp
    qed
    then have "toUpperCase (upperUnit h @ ?Y) = toUpperCase (upperUnit h) @ toUpperCase ?Y"
      by (rule toUpperCase_append)
    then show ?thesis
      using False ih by (simp add: toUpperCase_no_pair toUpperCase_upperUnit del: toUpperCase.simps)
  qed
qed

lemma toUpperCase_without_space:
  "\<forall>c\<in>set s. \<not> isSpace c \<Longrightarrow> \<forall>c\<in>set (toUpperCase s). \<not> isSpace c"
proof (induction s rule: toUpperCase.induct)
  case 1
  then show ?case by simp
next
  case (2 u)
  then show ?case using upperUnit_space by auto
next
  case (3 h l us)
  show ?case
  proof (cases "isHigh h \<and> isLow l")
    case True
    then obtain h' l' where p: "upperPair h l = [h', l']" "isHigh h'" "isLow l'"
      using upperPair_pair by blast
    then have "\<not> isSpace h'" "\<not> isSpace l'"
      by (simp_all add: surrogate_not_space isSurrogate_iff)
    moreover have "\<forall>c\<in>set (toUpperCase us). \<not> isSpace c" using 3(1) [OF True] 3(3) by simp
    ultimately show ?thesis using True p by (simp add: toUpperCase_pair del: toUpperCase.simps)
  next
    case False
    have "\<forall>c\<in>set (toUpperCase (l # us)). \<not> isSpace c" using 3(2) [OF False] 3(3) by simp
    moreover have "\<forall>c\<in>set (upperUnit h). \<not> isSpace c" using 3(3) upperUnit_space by auto
    ultimately show ?thesis
      using False by (auto simp: toUpperCase_no_pair simp del: toUpperCase.simps)
  qed
qed

section \<open>Normalisation of codes\<close>

lemma dropWhile_never: "\<forall>c\<in>set s. \<not> P c \<Longrightarrow> dropWhile P s = s"
  by (cases s) auto

lemma trim_without_space: "\<forall>c\<in>set s. \<not> isSpace c \<Longrightarrow> trim s = s"
  by (simp add: trim_def dropWhile_never)

lemma set_stripLeadingHash: "set (stripLeadingHash s) \<subseteq> set s"
  by (cases s) auto

lemma normalizeCode_without_space: "c \<in> set (normalizeCode x) \<Longrightarrow> \<not> isSpace c"
proof -
  have "\<forall>c\<in>set (stripLeadingHash (removeWhitespace (trim x))). \<not> isSpace c"
    using set_stripLeadingHash [of "removeWhitespace (trim x)"]
    by (auto simp: removeWhitespace_def)
  then have "\<forall>c\<in>set (normalizeCode x). \<not> isSpace c"
    unfolding normalizeCode_def by (rule toUpperCase_without_space)
  then show "c \<in> set (normalizeCode x) \<Longrightarrow> \<not> isSpace c" by blast
qed

lemma toUpperCase_normalizeCode: "toUpperCase (normalizeCode x) = normalizeCode x"
  by (simp add: normalizeCode_def toUpperCase_idem)

lemma upperUnit_hash: "upperUnit 0x23 = [0x23]"
  by code_simp

lemma toUpperCase_stripLeadingHash:
  "toUpperCase y = y \<Longrightarrow> toUpperCase (stripLeadingHash y) = stripLeadingHash y"
proof (cases y)
  case Nil
  then show ?thesis by simp
next
  case (Cons c cs)
  assume y: "toUpperCase y = y"
  show ?thesis
  proof (cases "c = 0x23")
    case True
    have "\<not> isHigh (0x23 :: nat)" by (simp add: isHigh_def)
    then have "toUpperCase (0x23 # cs) = 0x23 # toUpperCase cs"
      by (simp add: toUpperCase_Cons upperUnit_hash)
    then show ?thesis using y Cons True by simp
  next
    case False
    then show ?thesis using y Cons by simp
  qed
qed

text \<open>
  Normalising a normalised code removes one more leading \<open>#\<close> and changes nothing else.
\<close>

lemma normalizeCode_twice: "normalizeCode (normalizeCode x) = stripLeadingHash (normalizeCode x)"
proof -
  let ?y = "normalizeCode x"
  have "\<forall>c\<in>set ?y. \<not> isSpace c" using normalizeCode_without_space by blast
  then have "removeWhitespace (trim ?y) = ?y"
    by (simp add: trim_without_space removeWhitespace_def)
  then have "normalizeCode ?y = toUpperCase (stripLeadingHash ?y)"
    by (simp add: normalizeCode_def [of ?y])
  then show ?thesis
    by (simp add: toUpperCase_stripLeadingHash toUpperCase_normalizeCode)
qed

text \<open>
  C3, as amended. Normalisation deletes one leading \<open>#\<close> only, so it is idempotent on
  every string whose normalised form does not start with \<open>#\<close>: for every such \<open>x\<close>,
  \<open>normalize(normalize(x)) = normalize(x)\<close>; and \<open>normalize(" #save10 ") = "SAVE10"\<close>.
\<close>

theorem normalizeCode_idempotent_without_hash:
  "(take 1 (normalizeCode x) \<noteq> js ''#'' \<longrightarrow> normalizeCode (normalizeCode x) = normalizeCode x) \<and>
   normalizeCode (js '' #save10 '') = js ''SAVE10''"
proof -
  have "normalizeCode (normalizeCode x) = normalizeCode x"
    if "take 1 (normalizeCode x) \<noteq> js ''#''"
  proof -
    have "js ''#'' = [0x23]" by (simp add: js_def)
    then have "stripLeadingHash (normalizeCode x) = normalizeCode x"
      using that by (cases "normalizeCode x") auto
    then show ?thesis by (simp add: normalizeCode_twice)
  qed
  moreover have "normalizeCode (js '' #save10 '') = js ''SAVE10''" by code_simp
  ultimately show ?thesis by blast
qed

theorem normalizeCode_idempotent_without_hash_witness:
  "take 1 (normalizeCode (js '' #save10 '')) \<noteq> js ''#'' \<and>
   normalizeCode (normalizeCode (js '' #save10 '')) = normalizeCode (js '' #save10 '') \<and>
   normalizeCode (js '' #save10 '') = js ''SAVE10''"
proof -
  have h: "take 1 (normalizeCode (js '' #save10 '')) \<noteq> js ''#''" by code_simp
  show ?thesis using h normalizeCode_idempotent_without_hash [of "js '' #save10 ''"] by blast
qed

text \<open>
  C3 as stated fails: \<open>"##a"\<close> normalises to \<open>"#A"\<close>, and \<open>"#A"\<close> normalises to \<open>"A"\<close>.
\<close>

theorem normalizeCode_not_idempotent:
  "normalizeCode (js ''##a'') = js ''#A'' \<and> normalizeCode (normalizeCode (js ''##a'')) = js ''A'' \<and>
   normalizeCode (normalizeCode (js ''##a'')) \<noteq> normalizeCode (js ''##a'')"
  by code_simp

section \<open>The applicability flags of a response\<close>

lemma someEntry_without_null:
  "JNull \<notin> set ds \<Longrightarrow> someEntry c flag ds = Inr (\<exists>d\<in>set ds. entryMatches c flag d)"
  by (induction ds) auto

lemma flagged_discountCodes: "flagged c flag data = someEntry c flag (discountCodes data)"
  by (simp add: flagged_def discountCodes_def split: option.splits json.splits)

lemma flagged_without_null:
  "JNull \<notin> set (discountCodes data) \<Longrightarrow>
     flagged c flag data = Inr (\<exists>d\<in>set (discountCodes data). entryMatches c flag d)"
  by (simp add: flagged_discountCodes someEntry_without_null)

lemma arrayIndex_discount_codes: "arrayIndex (js ''discount_codes'') = None"
  by (simp add: js_def digitOf_def)

lemma discount_codes_not_length: "js ''discount_codes'' \<noteq> js ''length''"
  by (simp add: js_def)

text \<open>Only an object has a \<open>discount_codes\<close> array.\<close>

lemma discountCodes_object:
  "discountCodes data \<noteq> [] \<Longrightarrow> truthy data \<and> typeofObject data"
  by (cases data)
     (auto simp: discountCodes_def arrayIndex_discount_codes discount_codes_not_length
           simp del: arrayIndex.simps)

section \<open>The pill heuristic\<close>

lemma noNewPill_same_set:
  assumes "distinct xs" and "distinct ys" and "set xs = set ys"
  shows "noNewPill xs ys"
proof -
  have "length xs = card (set xs)" using assms(1) by (simp add: distinct_card)
  also have "\<dots> = card (set ys)" using assms(3) by simp
  also have "\<dots> = length ys" using assms(2) by (simp add: distinct_card)
  finally show ?thesis using assms(3) by (simp add: noNewPill_def list_all_iff)
qed

lemma noNewPill_new_code:
  assumes "\<exists>c\<in>set xs. c \<notin> set ys"
  shows "\<not> noNewPill xs ys"
  using assms by (auto simp: noNewPill_def list_all_iff)

text \<open>
  The test compares lengths, so it is equality of the two code sets on duplicate-free
  lists; a code that the markup repeats counts as a new pill.
\<close>

lemma noNewPill_repeated_code: "\<not> noNewPill [js ''A'', js ''A''] [js ''A'']"
  by (simp add: noNewPill_def)

section \<open>applyDiscount: the synchronous part\<close>

lemma applyDiscount_start_pending:
  assumes "applyDiscount_start ev st0 = (st1, Some p)"
  shows "\<exists>v sid. targetIsForm ev \<and> sectionId st0 = Some sid \<and> inputValue st0 = Some v \<and>
           normalizeCode v \<noteq> [] \<and> normalizeCode v \<notin> set (existingDiscounts st0) \<and>
           pendingCode p = normalizeCode v \<and> pendingExisting p = existingDiscounts st0 \<and>
           pendingController p = nextController st0"
  using assms
  by (auto simp: applyDiscount_start_def Let_def newAbort_def lockUI_def hideAllErrors_def
           split: if_splits option.splits prod.splits)

lemma applyDiscount_start_state:
  assumes "applyDiscount_start ev st0 = (st1, Some p)"
  shows "errorHidden st1 \<and> errorDiscountCodeHidden st1 \<and> errorShippingHidden st1 \<and>
         statusLive st1 = Some (js ''Applying...'') \<and> activeFetch st1 = Some (pendingController p) \<and>
         submitBtn st1 = formHasSubmit st0 \<and> (formHasSubmit st0 \<longrightarrow> submitDisabled st1) \<and>
         inputValue st1 = inputValue st0 \<and> dispatched st1 = dispatched st0 \<and>
         morphed st1 = morphed st0 \<and> length (requests st1) = Suc (length (requests st0))"
  using assms
  by (auto simp: applyDiscount_start_def Let_def newAbort_def lockUI_def hideAllErrors_def
           split: if_splits option.splits prod.splits)

text \<open>
  C7. When the normalised input code (non-empty, as the operation requires) is already
  among the codes read from the pills, \<open>applyDiscount\<close> returns before it locks the UI
  or creates a request: the component is as before but for the input, which is empty.
  Nothing is fetched, no error panel changes.
\<close>

theorem applyDiscount_already_applied:
  assumes "targetIsForm ev" and "sectionId st = Some sid" and "inputValue st = Some v"
    and "normalizeCode v \<noteq> []" and "normalizeCode v \<in> set (existingDiscounts st)"
  shows "applyDiscount_start ev st = (st\<lparr>inputValue := Some []\<rparr>, None)"
  using assms by (simp add: applyDiscount_start_def)

theorem applyDiscount_already_applied_witness:
  "let st = freshComponent (js ''cart'') (js ''cd'') [\<lparr>isLi = True, discountCode = Some (js ''SAVE10'')\<rparr>]
              (js '' save10 '')
   in existingDiscounts st = [js ''SAVE10''] \<and>
      applyDiscount_start \<lparr>targetIsForm = True\<rparr> st = (st\<lparr>inputValue := Some []\<rparr>, None)"
proof -
  define st where
    "st = freshComponent (js ''cart'') (js ''cd'') [\<lparr>isLi = True, discountCode = Some (js ''SAVE10'')\<rparr>]
            (js '' save10 '')"
  have h1: "targetIsForm \<lparr>targetIsForm = True\<rparr>" by simp
  have h2: "sectionId st = Some (js ''cart'')" unfolding st_def by code_simp
  have h3: "inputValue st = Some (js '' save10 '')" unfolding st_def by code_simp
  have h4: "normalizeCode (js '' save10 '') \<noteq> []" by code_simp
  have h5: "normalizeCode (js '' save10 '') \<in> set (existingDiscounts st)" unfolding st_def by code_simp
  have e: "existingDiscounts st = [js ''SAVE10'']" unfolding st_def by code_simp
  show ?thesis
    using applyDiscount_already_applied [OF h1 h2 h3 h4 h5] e
    unfolding st_def Let_def by simp
qed

section \<open>removeDiscount: the synchronous part\<close>

text \<open>
  C8. When the normalised code of the activated pill is not among the codes read from
  the pills, \<open>removeDiscount\<close> returns at once: no controller is aborted or created, no
  request is issued, the component is unchanged.
\<close>

theorem removeDiscount_absent_noop:
  assumes "\<forall>pl. closestPill ev = Some pl \<longrightarrow>
             normalizeCode (case discountCode pl of Some c \<Rightarrow> c | None \<Rightarrow> [])
               \<notin> set (existingDiscounts st)"
  shows "removeDiscount_start ev st = (st, None)"
  using assms by (simp add: removeDiscount_start_def Let_def split: option.splits)

theorem removeDiscount_absent_noop_witness:
  "let st = freshComponent (js ''cart'') (js ''cd'') [\<lparr>isLi = True, discountCode = Some (js ''FREESHIP'')\<rparr>] [];
       ev = \<lparr>keyboardKey = None, targetIsElement = True,
             closestPill = Some \<lparr>isLi = True, discountCode = Some (js ''save10'')\<rparr>\<rparr>
   in existingDiscounts st = [js ''FREESHIP''] \<and> removeDiscount_start ev st = (st, None)"
proof -
  define st where
    "st = freshComponent (js ''cart'') (js ''cd'') [\<lparr>isLi = True, discountCode = Some (js ''FREESHIP'')\<rparr>] []"
  define ev where "ev = \<lparr>keyboardKey = None, targetIsElement = True,
             closestPill = Some \<lparr>isLi = True, discountCode = Some (js ''save10'')\<rparr>\<rparr>"
  have e: "existingDiscounts st = [js ''FREESHIP'']" unfolding st_def by code_simp
  have n: "normalizeCode (js ''save10'') \<notin> set (existingDiscounts st)"
    unfolding st_def by code_simp
  have h: "\<forall>pl. closestPill ev = Some pl \<longrightarrow>
             normalizeCode (case discountCode pl of Some c \<Rightarrow> c | None \<Rightarrow> [])
               \<notin> set (existingDiscounts st)"
    using n by (simp add: ev_def)
  show ?thesis
    using removeDiscount_absent_noop [OF h] e unfolding st_def ev_def Let_def by simp
qed

section \<open>applyDiscount: the settlement\<close>

lemma applyDiscount_try_not_applicable:
  assumes "JNull \<notin> set (discountCodes data)"
    and "\<exists>d\<in>set (discountCodes data). entryMatches (pendingCode p) False d"
  shows "applyDiscount_try sp p (Responded True (Some data)) st =
           Inr (showError DiscountCodeError (st\<lparr>inputValue := Some []\<rparr>))"
proof -
  from assms(2) have "discountCodes data \<noteq> []" by auto
  then have ok: "truthy data" "typeofObject data" using discountCodes_object by blast+
  have "flagged (pendingCode p) False data = Inr True"
    using assms by (simp add: flagged_without_null)
  with ok show ?thesis
    by (simp add: applyDiscount_try_def responseData_def)
qed

lemma applyDiscount_try_shipping:
  assumes "truthy data" and "typeofObject data"
    and "flagged (pendingCode p) False data = Inr False"
    and "flagged (pendingCode p) True data = Inr True"
    and "sectionsEntry data (sectionKey st) = Some (JStr html)"
    and "noNewPill (nextCodesOf (sp (sectionKey st) html)) (pendingExisting p)"
  shows "applyDiscount_try sp p (Responded True (Some data)) st =
           Inr ((showError ShippingError st)\<lparr>inputValue := Some []\<rparr>)"
  using assms by (simp add: applyDiscount_try_def responseData_def)

lemma applyDiscount_try_morph:
  assumes "truthy data" and "typeofObject data"
    and "flagged (pendingCode p) False data = Inr False"
    and "flagged (pendingCode p) True data = Inr a"
    and "sectionsEntry data (sectionKey st) = Some (JStr html)"
    and "\<not> noNewPill (nextCodesOf (sp (sectionKey st) html)) (pendingExisting p)"
  shows "applyDiscount_try sp p (Responded True (Some data)) st =
           Inr (st\<lparr>dispatched := dispatched st @ [(data, componentId st)],
                   morphed := morphed st @ [(sectionKey st, html)],
                   inputValue := Some []\<rparr>)"
  using assms by (simp add: applyDiscount_try_def responseData_def)

lemma applyDiscount_try_no_markup:
  assumes "truthy (responseData parsed)" and "typeofObject (responseData parsed)"
    and "flagged (pendingCode p) False (responseData parsed) = Inr False"
    and "\<forall>html. sectionsEntry (responseData parsed) (sectionKey st) \<noteq> Some (JStr html)"
  shows "applyDiscount_try sp p (Responded True parsed) st = Inr (st\<lparr>inputValue := Some []\<rparr>)"
  using assms by (auto simp: applyDiscount_try_def Let_def split: option.splits json.splits)

text \<open>
  The failures that do surface the generic error: \<open>fetch\<close> rejects with something other
  than an \<open>AbortError\<close>, the status is not OK, or the body parses to a value that is not
  an object. The input keeps its value, nothing is dispatched or morphed.
\<close>

lemma applyDiscount_settle_rejected:
  "e \<noteq> ''AbortError'' \<Longrightarrow>
     applyDiscount_settle sp p (Rejected e) st =
       unlockUI [] ((showError DiscountCodeError st)\<lparr>activeFetch := None\<rparr>)"
  by (simp add: applyDiscount_settle_def applyDiscount_try_def)

lemma applyDiscount_settle_not_ok:
  "applyDiscount_settle sp p (Responded False parsed) st =
     unlockUI [] ((showError DiscountCodeError st)\<lparr>activeFetch := None\<rparr>)"
  by (simp add: applyDiscount_settle_def applyDiscount_try_def)

lemma applyDiscount_settle_not_object:
  "\<not> (truthy j \<and> typeofObject j) \<Longrightarrow>
     applyDiscount_settle sp p (Responded ok (Some j)) st =
       unlockUI [] ((showError DiscountCodeError st)\<lparr>activeFetch := None\<rparr>)"
  by (auto simp: applyDiscount_settle_def applyDiscount_try_def responseData_def)

text \<open>
  A body that is not JSON leaves \<open>data = {}\<close>: with an OK status the settlement is that
  of an empty object, the input is emptied and no error is shown.
\<close>

lemma applyDiscount_settle_unparseable:
  "applyDiscount_settle sp p (Responded True None) st =
     unlockUI [] (st\<lparr>inputValue := Some [], activeFetch := None\<rparr>)"
  by (simp add: applyDiscount_settle_def applyDiscount_try_def responseData_def flagged_def
                sectionsEntry_def)

lemma showError_discount_code_fields:
  "\<not> errorHidden (unlockUI [] ((showError DiscountCodeError st)\<lparr>activeFetch := None\<rparr>)) \<and>
   \<not> errorDiscountCodeHidden (unlockUI [] ((showError DiscountCodeError st)\<lparr>activeFetch := None\<rparr>)) \<and>
   inputValue (unlockUI [] ((showError DiscountCodeError st)\<lparr>activeFetch := None\<rparr>)) = inputValue st \<and>
   dispatched (unlockUI [] ((showError DiscountCodeError st)\<lparr>activeFetch := None\<rparr>)) = dispatched st \<and>
   morphed (unlockUI [] ((showError DiscountCodeError st)\<lparr>activeFetch := None\<rparr>)) = morphed st"
  by (simp add: unlockUI_def showError_def Let_def split: option.splits)

text \<open>
  The settlement of an aborted \<open>applyDiscount\<close>: the \<open>catch\<close> shows no error, the
  \<open>finally\<close> still runs.
\<close>

lemma applyDiscount_settle_aborted:
  "applyDiscount_settle sp p (Rejected ''AbortError'') st = unlockUI [] (st\<lparr>activeFetch := None\<rparr>)"
  by (simp add: applyDiscount_settle_def applyDiscount_try_def)

lemma removeDiscount_settle_aborted:
  "removeDiscount_settle (Rejected ''AbortError'') st = st\<lparr>activeFetch := None\<rparr>"
  by (simp add: removeDiscount_settle_def removeDiscount_try_def)

text \<open>
  C6. An \<open>applyDiscount\<close> call has issued its request for the code \<open>normalizeCode v\<close>;
  the response is OK and its \<open>discount_codes\<close> array (of entries, none of them \<open>null\<close>)
  has an entry for that code with \<open>applicable: false\<close>. Then, whatever state \<open>st\<close> the
  response finds the component in, the settlement shows the discount-code error, empties
  the input, and neither morphs a section nor dispatches an event.
\<close>

theorem applyDiscount_not_applicable:
  assumes "applyDiscount_start ev st0 = (st1, Some p)"
    and "inputValue st0 = Some v"
    and "JNull \<notin> set (discountCodes data)"
    and "\<exists>d\<in>set (discountCodes data). entryMatches (normalizeCode v) False d"
  shows "let r = applyDiscount_settle sp p (Responded True (Some data)) st in
           \<not> errorHidden r \<and> \<not> errorDiscountCodeHidden r \<and>
           errorShippingHidden r = errorShippingHidden st \<and>
           inputValue r = Some [] \<and> morphed r = morphed st \<and> dispatched r = dispatched st"
proof -
  from applyDiscount_start_pending [OF assms(1)] assms(2)
  have "pendingCode p = normalizeCode v" by auto
  with assms(3,4)
  have "applyDiscount_try sp p (Responded True (Some data)) st =
           Inr (showError DiscountCodeError (st\<lparr>inputValue := Some []\<rparr>))"
    by (simp add: applyDiscount_try_not_applicable)
  then show ?thesis
    by (simp add: applyDiscount_settle_def unlockUI_def showError_def Let_def split: option.splits)
qed

theorem applyDiscount_not_applicable_witness:
  "let st0 = freshComponent (js ''cart'') (js ''cd'') [] (js ''bad'');
       ev = \<lparr>targetIsForm = True\<rparr>;
       st1 = fst (applyDiscount_start ev st0);
       p = the (snd (applyDiscount_start ev st0));
       data = JObj [(js ''discount_codes'',
                JArr [JObj [(js ''code'', JStr (js ''bad'')), (js ''applicable'', JBool False)]])];
       r = applyDiscount_settle (\<lambda>k h. []) p (Responded True (Some data)) st1
   in pendingCode p = js ''BAD'' \<and> \<not> errorHidden r \<and> \<not> errorDiscountCodeHidden r \<and>
      errorShippingHidden r \<and> inputValue r = Some [] \<and> morphed r = [] \<and> dispatched r = []"
proof -
  define st0 where "st0 = freshComponent (js ''cart'') (js ''cd'') [] (js ''bad'')"
  define ev where "ev = \<lparr>targetIsForm = True\<rparr>"
  define data where "data = JObj [(js ''discount_codes'',
                JArr [JObj [(js ''code'', JStr (js ''bad'')), (js ''applicable'', JBool False)]])]"
  have h1: "applyDiscount_start ev st0 =
              (fst (applyDiscount_start ev st0), Some (the (snd (applyDiscount_start ev st0))))"
    unfolding st0_def ev_def by code_simp
  have h2: "inputValue st0 = Some (js ''bad'')" unfolding st0_def by code_simp
  have h3: "JNull \<notin> set (discountCodes data)" unfolding data_def by code_simp
  have h4: "\<exists>d\<in>set (discountCodes data). entryMatches (normalizeCode (js ''bad'')) False d"
    unfolding data_def by code_simp
  have c: "pendingCode (the (snd (applyDiscount_start ev st0))) = (js ''BAD'')"
    unfolding st0_def ev_def by code_simp
  have e: "errorShippingHidden (fst (applyDiscount_start ev st0))"
     "morphed (fst (applyDiscount_start ev st0)) = []"
     "dispatched (fst (applyDiscount_start ev st0)) = []"
    unfolding st0_def ev_def by code_simp+
  show ?thesis
    using applyDiscount_not_applicable
            [OF h1 h2 h3 h4, of "\<lambda>k h. []" "fst (applyDiscount_start ev st0)"] c e
    unfolding st0_def ev_def data_def Let_def by simp
qed

text \<open>
  C4. An \<open>applyDiscount\<close> call has issued its request for the code \<open>normalizeCode v\<close>;
  the response is OK, its \<open>discount_codes\<close> array (of entries, none \<open>null\<close>) marks the
  code \<open>applicable: true\<close> (and not also \<open>applicable: false\<close>), and the pill codes of the
  returned section markup are, as a set, the codes read from the DOM before the request
  (both duplicate-free, as the applied-discount set of the data model is). Then the
  settlement shows the shipping error and empties the input; it dispatches no event and
  morphs no section.
\<close>

theorem applyDiscount_shipping:
  assumes "applyDiscount_start ev st0 = (st1, Some p)"
    and "inputValue st0 = Some v"
    and "JNull \<notin> set (discountCodes data)"
    and "\<exists>d\<in>set (discountCodes data). entryMatches (normalizeCode v) True d"
    and "\<not> (\<exists>d\<in>set (discountCodes data). entryMatches (normalizeCode v) False d)"
    and "sectionsEntry data (sectionKey st) = Some (JStr html)"
    and "distinct (nextCodesOf (sp (sectionKey st) html))"
    and "distinct (existingDiscounts st0)"
    and "set (nextCodesOf (sp (sectionKey st) html)) = set (existingDiscounts st0)"
  shows "let r = applyDiscount_settle sp p (Responded True (Some data)) st in
           \<not> errorHidden r \<and> \<not> errorShippingHidden r \<and>
           errorDiscountCodeHidden r = errorDiscountCodeHidden st \<and>
           inputValue r = Some [] \<and> dispatched r = dispatched st \<and> morphed r = morphed st"
proof -
  from applyDiscount_start_pending [OF assms(1)] assms(2)
  have p: "pendingCode p = normalizeCode v" "pendingExisting p = existingDiscounts st0" by auto
  from assms(4) have "discountCodes data \<noteq> []" by auto
  then have ok: "truthy data" "typeofObject data" using discountCodes_object by blast+
  have f: "flagged (pendingCode p) False data = Inr False"
    "flagged (pendingCode p) True data = Inr True"
    using assms(3,4,5) p by (simp_all add: flagged_without_null)
  have n: "noNewPill (nextCodesOf (sp (sectionKey st) html)) (pendingExisting p)"
    using assms(7,8,9) p by (simp add: noNewPill_same_set)
  have "applyDiscount_try sp p (Responded True (Some data)) st =
           Inr ((showError ShippingError st)\<lparr>inputValue := Some []\<rparr>)"
    using ok f assms(6) n by (rule applyDiscount_try_shipping)
  then show ?thesis
    by (simp add: applyDiscount_settle_def unlockUI_def showError_def Let_def split: option.splits)
qed

theorem applyDiscount_shipping_witness:
  "let st0 = freshComponent (js ''cart'') (js ''cd'') [\<lparr>isLi = True, discountCode = Some (js ''SAVE10'')\<rparr>]
               (js ''freeship'');
       ev = \<lparr>targetIsForm = True\<rparr>;
       st1 = fst (applyDiscount_start ev st0);
       p = the (snd (applyDiscount_start ev st0));
       markup = js ''<div id=shopify-section-cart><ul>'' @
                js ''<li class=cart-discount__pill data-discount-code=SAVE10>'' @
                js ''</ul></div>'';
       data = JObj [(js ''discount_codes'',
                 JArr [JObj [(js ''code'', JStr (js ''SAVE10'')), (js ''applicable'', JBool True)],
                       JObj [(js ''code'', JStr (js ''FREESHIP'')), (js ''applicable'', JBool True)]]),
                (js ''sections'', JObj [(js ''cart'', JStr markup)])];
       sp = (\<lambda>k h. [\<lparr>isLi = True, discountCode = Some (js ''SAVE10'')\<rparr>]);
       r = applyDiscount_settle sp p (Responded True (Some data)) st1
   in pendingCode p = js ''FREESHIP'' \<and> pendingExisting p = [js ''SAVE10''] \<and>
      \<not> errorHidden r \<and> \<not> errorShippingHidden r \<and> errorDiscountCodeHidden r \<and>
      inputValue r = Some [] \<and> dispatched r = [] \<and> morphed r = []"
proof -
  define st0 where
    "st0 = freshComponent (js ''cart'') (js ''cd'') [\<lparr>isLi = True, discountCode = Some (js ''SAVE10'')\<rparr>]
             (js ''freeship'')"
  define ev where "ev = \<lparr>targetIsForm = True\<rparr>"
  define st1 where "st1 = fst (applyDiscount_start ev st0)"
  define p where "p = the (snd (applyDiscount_start ev st0))"
  define markup where
    "markup = js ''<div id=shopify-section-cart><ul>'' @
               js ''<li class=cart-discount__pill data-discount-code=SAVE10>'' @
               js ''</ul></div>''"
  define data where "data = JObj [(js ''discount_codes'',
                 JArr [JObj [(js ''code'', JStr (js ''SAVE10'')), (js ''applicable'', JBool True)],
                       JObj [(js ''code'', JStr (js ''FREESHIP'')), (js ''applicable'', JBool True)]]),
                (js ''sections'', JObj [(js ''cart'', JStr markup)])]"
  define sp :: "jsstring \<Rightarrow> jsstring \<Rightarrow> pill list"
    where "sp = (\<lambda>k h. [\<lparr>isLi = True, discountCode = Some (js ''SAVE10'')\<rparr>])"
  have h1: "applyDiscount_start ev st0 = (st1, Some p)"
    unfolding st0_def ev_def st1_def p_def by code_simp
  have h2: "inputValue st0 = Some (js ''freeship'')" unfolding st0_def by code_simp
  have h3: "JNull \<notin> set (discountCodes data)" unfolding data_def by code_simp
  have h4: "\<exists>d\<in>set (discountCodes data). entryMatches (normalizeCode (js ''freeship'')) True d"
    unfolding data_def by code_simp
  have h5: "\<not> (\<exists>d\<in>set (discountCodes data). entryMatches (normalizeCode (js ''freeship'')) False d)"
    unfolding data_def by code_simp
  have h6: "sectionsEntry data (sectionKey st1) = Some (JStr markup)"
    unfolding data_def st1_def st0_def ev_def by code_simp
  have h7: "distinct (nextCodesOf (sp (sectionKey st1) markup))"
    unfolding sp_def by code_simp
  have h8: "distinct (existingDiscounts st0)" unfolding st0_def by code_simp
  have h9: "set (nextCodesOf (sp (sectionKey st1) markup)) = set (existingDiscounts st0)"
    unfolding sp_def st0_def by code_simp
  have c: "pendingCode p = (js ''FREESHIP'')" "pendingExisting p = [js ''SAVE10'']"
    "errorDiscountCodeHidden st1" "dispatched st1 = []" "morphed st1 = []"
    unfolding st0_def ev_def st1_def p_def by code_simp+
  show ?thesis
    using applyDiscount_shipping
            [where sp = sp and st = st1 and html = "markup",
             OF h1 h2 h3 h4 h5 h6 h7 h8 h9] c
    unfolding st0_def ev_def st1_def p_def markup_def data_def sp_def Let_def by simp
qed

text \<open>
  C5. An \<open>applyDiscount\<close> call has issued its request for the code \<open>normalizeCode v\<close>;
  the response is OK, its \<open>discount_codes\<close> array (of entries, none \<open>null\<close>) marks the
  code \<open>applicable: true\<close> (and not also \<open>applicable: false\<close>), and the returned section
  markup has a pill whose code was not among the codes read from the DOM before the
  request. Then the settlement dispatches exactly one event, carrying the response
  payload and the component's id, calls \<open>morphSection\<close> once with the returned markup,
  empties the input and leaves the error panels as they are: hidden, as the call left
  them when it issued the request.
\<close>

theorem applyDiscount_new_pill:
  assumes "applyDiscount_start ev st0 = (st1, Some p)"
    and "inputValue st0 = Some v"
    and "JNull \<notin> set (discountCodes data)"
    and "\<exists>d\<in>set (discountCodes data). entryMatches (normalizeCode v) True d"
    and "\<not> (\<exists>d\<in>set (discountCodes data). entryMatches (normalizeCode v) False d)"
    and "sectionsEntry data (sectionKey st) = Some (JStr html)"
    and "\<exists>c\<in>set (nextCodesOf (sp (sectionKey st) html)). c \<notin> set (existingDiscounts st0)"
  shows "let r = applyDiscount_settle sp p (Responded True (Some data)) st in
           dispatched r = dispatched st @ [(data, componentId st)] \<and>
           morphed r = morphed st @ [(sectionKey st, html)] \<and>
           inputValue r = Some [] \<and>
           errorHidden r = errorHidden st \<and>
           errorDiscountCodeHidden r = errorDiscountCodeHidden st \<and>
           errorShippingHidden r = errorShippingHidden st \<and>
           errorHidden st1 \<and> errorDiscountCodeHidden st1 \<and> errorShippingHidden st1"
proof -
  from applyDiscount_start_pending [OF assms(1)] assms(2)
  have p: "pendingCode p = normalizeCode v" "pendingExisting p = existingDiscounts st0" by auto
  from assms(4) have "discountCodes data \<noteq> []" by auto
  then have ok: "truthy data" "typeofObject data" using discountCodes_object by blast+
  have f: "flagged (pendingCode p) False data = Inr False"
    "flagged (pendingCode p) True data = Inr True"
    using assms(3,4,5) p by (simp_all add: flagged_without_null)
  have n: "\<not> noNewPill (nextCodesOf (sp (sectionKey st) html)) (pendingExisting p)"
    using assms(7) p by (simp add: noNewPill_new_code)
  have "applyDiscount_try sp p (Responded True (Some data)) st =
           Inr (st\<lparr>dispatched := dispatched st @ [(data, componentId st)],
                   morphed := morphed st @ [(sectionKey st, html)],
                   inputValue := Some []\<rparr>)"
    using ok f assms(6) n by (rule applyDiscount_try_morph)
  then show ?thesis
    using applyDiscount_start_state [OF assms(1)]
    by (simp add: applyDiscount_settle_def unlockUI_def Let_def split: option.splits)
qed

theorem applyDiscount_new_pill_witness:
  "let st0 = freshComponent (js ''cart'') (js ''cd'') [\<lparr>isLi = True, discountCode = Some (js ''SAVE10'')\<rparr>]
               (js ''save20'');
       ev = \<lparr>targetIsForm = True\<rparr>;
       st1 = fst (applyDiscount_start ev st0);
       p = the (snd (applyDiscount_start ev st0));
       markup = js ''<div id=shopify-section-cart><ul>'' @
                js ''<li class=cart-discount__pill data-discount-code=SAVE10>'' @
                js ''<li class=cart-discount__pill data-discount-code=SAVE20>'' @
                js ''</ul></div>'';
       data = JObj [(js ''discount_codes'',
                 JArr [JObj [(js ''code'', JStr (js ''SAVE10'')), (js ''applicable'', JBool True)],
                       JObj [(js ''code'', JStr (js ''SAVE20'')), (js ''applicable'', JBool True)]]),
                (js ''sections'', JObj [(js ''cart'', JStr markup)])];
       sp = (\<lambda>k h. [\<lparr>isLi = True, discountCode = Some (js ''SAVE10'')\<rparr>,
                     \<lparr>isLi = True, discountCode = Some (js ''SAVE20'')\<rparr>]);
       r = applyDiscount_settle sp p (Responded True (Some data)) st1
   in pendingCode p = js ''SAVE20'' \<and> pendingExisting p = [js ''SAVE10''] \<and>
      dispatched r = [(data, js ''cd'')] \<and> morphed r = [(js ''cart'', markup)] \<and>
      inputValue r = Some [] \<and>
      errorHidden r \<and> errorDiscountCodeHidden r \<and> errorShippingHidden r"
proof -
  define st0 where
    "st0 = freshComponent (js ''cart'') (js ''cd'') [\<lparr>isLi = True, discountCode = Some (js ''SAVE10'')\<rparr>]
             (js ''save20'')"
  define ev where "ev = \<lparr>targetIsForm = True\<rparr>"
  define st1 where "st1 = fst (applyDiscount_start ev st0)"
  define p where "p = the (snd (applyDiscount_start ev st0))"
  define markup where
    "markup = js ''<div id=shopify-section-cart><ul>'' @
               js ''<li class=cart-discount__pill data-discount-code=SAVE10>'' @
               js ''<li class=cart-discount__pill data-discount-code=SAVE20>'' @
               js ''</ul></div>''"
  define data where "data = JObj [(js ''discount_codes'',
                 JArr [JObj [(js ''code'', JStr (js ''SAVE10'')), (js ''applicable'', JBool True)],
                       JObj [(js ''code'', JStr (js ''SAVE20'')), (js ''applicable'', JBool True)]]),
                (js ''sections'', JObj [(js ''cart'', JStr markup)])]"
  define sp :: "jsstring \<Rightarrow> jsstring \<Rightarrow> pill list"
    where "sp = (\<lambda>k h. [\<lparr>isLi = True, discountCode = Some (js ''SAVE10'')\<rparr>,
                         \<lparr>isLi = True, discountCode = Some (js ''SAVE20'')\<rparr>])"
  have h1: "applyDiscount_start ev st0 = (st1, Some p)"
    unfolding st0_def ev_def st1_def p_def by code_simp
  have h2: "inputValue st0 = Some (js ''save20'')" unfolding st0_def by code_simp
  have h3: "JNull \<notin> set (discountCodes data)" unfolding data_def by code_simp
  have h4: "\<exists>d\<in>set (discountCodes data). entryMatches (normalizeCode (js ''save20'')) True d"
    unfolding data_def by code_simp
  have h5: "\<not> (\<exists>d\<in>set (discountCodes data). entryMatches (normalizeCode (js ''save20'')) False d)"
    unfolding data_def by code_simp
  have h6: "sectionsEntry data (sectionKey st1) = Some (JStr markup)"
    unfolding data_def st1_def st0_def ev_def by code_simp
  have h7: "\<exists>c\<in>set (nextCodesOf (sp (sectionKey st1) markup)).
              c \<notin> set (existingDiscounts st0)"
    unfolding sp_def st0_def by code_simp
  have c: "pendingCode p = (js ''SAVE20'')" "pendingExisting p = [js ''SAVE10'']"
    "dispatched st1 = []" "morphed st1 = []" "componentId st1 = (js ''cd'')" "sectionKey st1 = (js ''cart'')"
    unfolding st0_def ev_def st1_def p_def by code_simp+
  show ?thesis
    using applyDiscount_new_pill
            [where sp = sp and st = st1 and html = "markup",
             OF h1 h2 h3 h4 h5 h6 h7] c
    unfolding st0_def ev_def st1_def p_def markup_def data_def sp_def Let_def by simp
qed

text \<open>
  C9. An \<open>applyDiscount\<close> call has issued its request for the code \<open>normalizeCode v\<close>;
  the response is OK with a body that passes the object check (an object or an array,
  or a body that did not parse and counts as \<open>{}\<close>), its \<open>discount_codes\<close>, if an array
  (of entries, none \<open>null\<close>), has no entry for the code with \<open>applicable: false\<close>, and
  \<open>sections\<close> gives no string for the section id. Then the settlement empties the input
  and does nothing else that shows: the error panels stay as they are (hidden, as the
  call left them when it issued the request), no event is dispatched, no section is
  morphed.
\<close>

theorem applyDiscount_no_markup:
  assumes "applyDiscount_start ev st0 = (st1, Some p)"
    and "inputValue st0 = Some v"
    and "truthy (responseData parsed) \<and> typeofObject (responseData parsed)"
    and "JNull \<notin> set (discountCodes (responseData parsed))"
    and "\<not> (\<exists>d\<in>set (discountCodes (responseData parsed)). entryMatches (normalizeCode v) False d)"
    and "\<forall>html. sectionsEntry (responseData parsed) (sectionKey st) \<noteq> Some (JStr html)"
  shows "let r = applyDiscount_settle sp p (Responded True parsed) st in
           inputValue r = Some [] \<and>
           errorHidden r = errorHidden st \<and>
           errorDiscountCodeHidden r = errorDiscountCodeHidden st \<and>
           errorShippingHidden r = errorShippingHidden st \<and>
           dispatched r = dispatched st \<and> morphed r = morphed st \<and>
           errorHidden st1 \<and> errorDiscountCodeHidden st1 \<and> errorShippingHidden st1"
proof -
  from applyDiscount_start_pending [OF assms(1)] assms(2)
  have p: "pendingCode p = normalizeCode v" by auto
  have f: "flagged (pendingCode p) False (responseData parsed) = Inr False"
    using assms(4,5) p by (simp add: flagged_without_null)
  have "applyDiscount_try sp p (Responded True parsed) st = Inr (st\<lparr>inputValue := Some []\<rparr>)"
    using assms(3,6) f by (simp add: applyDiscount_try_no_markup)
  then show ?thesis
    using applyDiscount_start_state [OF assms(1)]
    by (simp add: applyDiscount_settle_def unlockUI_def Let_def split: option.splits)
qed

theorem applyDiscount_no_markup_witness:
  "let st0 = freshComponent (js ''cart'') (js ''cd'') [] (js ''save10'');
       ev = \<lparr>targetIsForm = True\<rparr>;
       st1 = fst (applyDiscount_start ev st0);
       p = the (snd (applyDiscount_start ev st0));
       parsed = Some (JObj [(js ''discount_codes'',
                  JArr [JObj [(js ''code'', JStr (js ''SAVE10'')), (js ''applicable'', JBool True)]]),
                 (js ''sections'', JObj [(js ''other'', JStr (js ''<ul></ul>''))])]);
       r = applyDiscount_settle (\<lambda>k h. []) p (Responded True parsed) st1
   in pendingCode p = js ''SAVE10'' \<and> inputValue r = Some [] \<and>
      errorHidden r \<and> errorDiscountCodeHidden r \<and> errorShippingHidden r \<and>
      dispatched r = [] \<and> morphed r = []"
proof -
  define st0 where "st0 = freshComponent (js ''cart'') (js ''cd'') [] (js ''save10'')"
  define ev where "ev = \<lparr>targetIsForm = True\<rparr>"
  define st1 where "st1 = fst (applyDiscount_start ev st0)"
  define p where "p = the (snd (applyDiscount_start ev st0))"
  define parsed where "parsed = Some (JObj [(js ''discount_codes'',
                  JArr [JObj [(js ''code'', JStr (js ''SAVE10'')), (js ''applicable'', JBool True)]]),
                 (js ''sections'', JObj [(js ''other'', JStr (js ''<ul></ul>''))])])"
  have h1: "applyDiscount_start ev st0 = (st1, Some p)"
    unfolding st0_def ev_def st1_def p_def by code_simp
  have h2: "inputValue st0 = Some (js ''save10'')" unfolding st0_def by code_simp
  have h3: "truthy (responseData parsed) \<and> typeofObject (responseData parsed)"
    unfolding parsed_def by code_simp
  have h4: "JNull \<notin> set (discountCodes (responseData parsed))"
    unfolding parsed_def by code_simp
  have h5: "\<not> (\<exists>d\<in>set (discountCodes (responseData parsed)).
                entryMatches (normalizeCode (js ''save10'')) False d)"
    unfolding parsed_def by code_simp
  have "sectionsEntry (responseData parsed) (sectionKey st1) = None"
    unfolding parsed_def st1_def st0_def ev_def by code_simp
  then have h6: "\<forall>html. sectionsEntry (responseData parsed) (sectionKey st1) \<noteq> Some (JStr html)"
    by simp
  have c: "pendingCode p = (js ''SAVE10'')" "dispatched st1 = []" "morphed st1 = []"
    unfolding st0_def ev_def st1_def p_def by code_simp+
  show ?thesis
    using applyDiscount_no_markup
            [where sp = "\<lambda>k h. []" and st = st1, OF h1 h2 h3 h4 h5 h6] c
    unfolding st0_def ev_def st1_def p_def parsed_def Let_def by simp
qed

text \<open>
  C2, at the input where the code departs from it: the response is OK and its body is
  not JSON. \<open>data\<close> keeps its initial value \<open>{}\<close>, which passes the object check, so
  the settlement treats the call as a success: the input is emptied and every error
  panel stays hidden.
\<close>

theorem applyDiscount_unparseable_ok_body:
  "let st0 = freshComponent (js ''cart'') (js ''cd'') [] (js ''save10'');
       ev = \<lparr>targetIsForm = True\<rparr>;
       st1 = fst (applyDiscount_start ev st0);
       p = the (snd (applyDiscount_start ev st0));
       r = applyDiscount_settle (\<lambda>k h. []) p (Responded True None) st1
   in snd (applyDiscount_start ev st0) \<noteq> None \<and> pendingCode p = js ''SAVE10'' \<and>
      inputValue st1 = Some (js ''save10'') \<and> inputValue r = Some [] \<and>
      errorHidden r \<and> errorDiscountCodeHidden r \<and> errorShippingHidden r"
  unfolding Let_def by code_simp

text \<open>
  C1, at the input where the code departs from it. A first \<open>applyDiscount\<close> (code
  \<open>A\<close>, controller 0) is suspended; the user types \<open>b\<close> and submits again, which aborts
  controller 0, installs controller 1 and locks the UI. When the first call then settles
  with the \<open>AbortError\<close>, its \<open>finally\<close> block clears \<open>#activeFetch\<close> (which held
  controller 1), enables the submit button and empties the status text, while the second
  request is still pending.
\<close>

theorem applyDiscount_superseded_settlement:
  "let st0 = freshComponent (js ''cart'') (js ''cd'') [] (js ''a'');
       ev = \<lparr>targetIsForm = True\<rparr>;
       st1 = fst (applyDiscount_start ev st0);
       p1 = the (snd (applyDiscount_start ev st0));
       st1' = st1\<lparr>inputValue := Some (js ''b'')\<rparr>;
       st2 = fst (applyDiscount_start ev st1');
       p2 = the (snd (applyDiscount_start ev st1'));
       st3 = applyDiscount_settle (\<lambda>k h. []) p1 (Rejected ''AbortError'') st2
   in pendingController p1 = 0 \<and> pendingController p2 = 1 \<and> aborted st2 = [0] \<and>
      activeFetch st2 = Some 1 \<and> submitDisabled st2 \<and> statusLive st2 = Some (js ''Applying...'') \<and>
      activeFetch st3 = None \<and> \<not> submitDisabled st3 \<and> statusLive st3 = Some []"
  unfolding Let_def by code_simp

text \<open>
  The same for a superseded \<open>removeDiscount\<close>: its \<open>finally\<close> block clears the handle
  of the request that superseded it.
\<close>

lemma removeDiscount_superseded_settlement:
  "let st0 = freshComponent (js ''cart'') (js ''cd'') [\<lparr>isLi = True, discountCode = Some (js ''SAVE10'')\<rparr>] (js ''b'');
       rv = \<lparr>keyboardKey = None, targetIsElement = True,
             closestPill = Some \<lparr>isLi = True, discountCode = Some (js ''SAVE10'')\<rparr>\<rparr>;
       st1 = fst (removeDiscount_start rv st0);
       st2 = fst (applyDiscount_start \<lparr>targetIsForm = True\<rparr> st1);
       st3 = removeDiscount_settle (Rejected ''AbortError'') st2
   in aborted st2 = [0] \<and> activeFetch st2 = Some 1 \<and> activeFetch st3 = None"
  unfolding Let_def by code_simp

end
